theory Spec2Isabelle
  imports Complex_Main
begin

section \<open>Spatial algebra used by the policies\<close>

text \<open>
  Modelled from the spec: the classes \<^verbatim>\<open>Rotation\<close> and \<^verbatim>\<open>Transform\<close> of
  \<^verbatim>\<open>robot_utils.spatial\<close> (and numpy's arrays behind them) are imported by
  \<^verbatim>\<open>policies.py\<close> but are not part of the sources. The specification describes a
  transform as a rigid pose (rotation + translation) that is composable and invertible,
  and a rotation by its rotation matrix. A rotation is therefore identified with the
  3x3 matrix that \<^verbatim>\<open>as_matrix()\<close> returns, stored by rows, and numpy's floats are
  idealised as real numbers: the rounding of the arithmetic operations is not modelled.
\<close>

type_synonym vec3 = "real \<times> real \<times> real"

type_synonym mat3 = "vec3 \<times> vec3 \<times> vec3"

fun vec_add :: "vec3 \<Rightarrow> vec3 \<Rightarrow> vec3" where
  "vec_add (a0, a1, a2) (b0, b1, b2) = (a0 + b0, a1 + b1, a2 + b2)"

fun vec_neg :: "vec3 \<Rightarrow> vec3" where
  "vec_neg (a0, a1, a2) = (- a0, - a1, - a2)"

fun dot :: "vec3 \<Rightarrow> vec3 \<Rightarrow> real" where
  "dot (a0, a1, a2) (b0, b1, b2) = a0 * b0 + a1 * b1 + a2 * b2"

fun mat_vec :: "mat3 \<Rightarrow> vec3 \<Rightarrow> vec3" where
  "mat_vec (r0, r1, r2) v = (dot r0 v, dot r1 v, dot r2 v)"

text \<open>Column \<open>j\<close> of a matrix, numpy's \<^verbatim>\<open>M[:, j]\<close>, for \<open>j = 0, 1, 2\<close>.\<close>

fun column0 :: "mat3 \<Rightarrow> vec3" where
  "column0 ((a00, a01, a02), (a10, a11, a12), (a20, a21, a22)) = (a00, a10, a20)"

fun column1 :: "mat3 \<Rightarrow> vec3" where
  "column1 ((a00, a01, a02), (a10, a11, a12), (a20, a21, a22)) = (a01, a11, a21)"

fun column2 :: "mat3 \<Rightarrow> vec3" where
  "column2 ((a00, a01, a02), (a10, a11, a12), (a20, a21, a22)) = (a02, a12, a22)"

definition mat_transpose :: "mat3 \<Rightarrow> mat3" where
  "mat_transpose A = (column0 A, column1 A, column2 A)"

fun mat_mul :: "mat3 \<Rightarrow> mat3 \<Rightarrow> mat3" where
  "mat_mul (r0, r1, r2) B =
     ((dot r0 (column0 B), dot r0 (column1 B), dot r0 (column2 B)),
      (dot r1 (column0 B), dot r1 (column1 B), dot r1 (column2 B)),
      (dot r2 (column0 B), dot r2 (column1 B), dot r2 (column2 B)))"

definition mat_identity :: mat3 where
  "mat_identity = ((1, 0, 0), (0, 1, 0), (0, 0, 1))"

text \<open>The matrices of rotations have orthonormal rows.\<close>

definition orthonormal :: "mat3 \<Rightarrow> bool" where
  "orthonormal A \<longleftrightarrow> mat_mul A (mat_transpose A) = mat_identity"

datatype Rotation = Rotation (as_matrix: mat3)

text \<open>\<^verbatim>\<open>r * s\<close>: the rotation \<open>s\<close> followed by the rotation \<open>r\<close>.\<close>

definition Rotation_mul :: "Rotation \<Rightarrow> Rotation \<Rightarrow> Rotation" where
  "Rotation_mul r s = Rotation (mat_mul (as_matrix r) (as_matrix s))"

text \<open>\<^verbatim>\<open>r.inv()\<close>: the inverse of a rotation matrix is its transpose.\<close>

definition Rotation_inv :: "Rotation \<Rightarrow> Rotation" where
  "Rotation_inv r = Rotation (mat_transpose (as_matrix r))"

definition Rotation_apply :: "Rotation \<Rightarrow> vec3 \<Rightarrow> vec3" where
  "Rotation_apply r v = mat_vec (as_matrix r) v"

definition Rotation_identity :: Rotation where
  "Rotation_identity = Rotation mat_identity"

text \<open>
  \<^verbatim>\<open>np.pi\<close> is a double, not the number \<open>\<pi>\<close>: it is the double nearest to \<open>\<pi>\<close>, whose
  exact value is the fraction below, a little more than \<open>1.22e-16\<close> under \<open>\<pi>\<close>.
\<close>

definition np_pi :: real where
  "np_pi = 884279719003555 / 281474976710656"

text \<open>\<^verbatim>\<open>Rotation.from_euler("z", angle)\<close>: the rotation by \<open>angle\<close> about the z axis.\<close>

definition Rotation_from_euler_z :: "real \<Rightarrow> Rotation" where
  "Rotation_from_euler_z angle =
     Rotation ((cos angle, - sin angle, 0), (sin angle, cos angle, 0), (0, 0, 1))"

record Transform =
  rotation :: Rotation
  translation :: vec3

text \<open>\<^verbatim>\<open>a * b\<close>: the pose \<open>b\<close>, given in the frame that \<open>a\<close> positions.\<close>

definition Transform_mul :: "Transform \<Rightarrow> Transform \<Rightarrow> Transform" where
  "Transform_mul a b =
     \<lparr>rotation = Rotation_mul (rotation a) (rotation b),
      translation = vec_add (Rotation_apply (rotation a) (translation b)) (translation a)\<rparr>"

definition Transform_inv :: "Transform \<Rightarrow> Transform" where
  "Transform_inv a =
     (let rot = Rotation_inv (rotation a)
      in \<lparr>rotation = rot, translation = vec_neg (Rotation_apply rot (translation a))\<rparr>)"

definition Transform_identity :: Transform where
  "Transform_identity = \<lparr>rotation = Rotation_identity, translation = (0, 0, 0)\<rparr>"

text \<open>
  Modelled from the spec: the class \<^verbatim>\<open>Grasp\<close> of the \<^verbatim>\<open>vgn\<close> package is not part of
  the sources. The specification gives a grasp candidate a pose in the task frame, a
  quality score and a gripper width.
\<close>

record Grasp =
  pose :: Transform
  quality :: real
  width :: real

section \<open>Failures\<close>

text \<open>
  What a call can raise. The first group are the Python exceptions that the statements
  of \<^verbatim>\<open>policies.py\<close> raise: indexing an empty sequence, reading an attribute that
  was never assigned (with the attribute's name), \<^verbatim>\<open>ValueError\<close> (with its message),
  and the exception of a failed frame lookup. The second group are the four failures
  named by the specification's error taxonomy; no statement of the source constructs
  them, they are here so that the specification's sentences can be stated.
\<close>

datatype failure =
    IndexError
  | AttributeError string
  | ValueError string
  | LookupException
  | SensorUnavailable
  | LookupTimeout
  | NoGraspFound
  | ModelLoadFailure

section \<open>The policy base class\<close>

type_synonym Image = "real list list"

type_synonym Intrinsic = "real list"

text \<open>
  Modelled from the spec: \<^verbatim>\<open>UniformTSDFVolume\<close> is not part of the sources. The
  volumetric map is represented by the arguments of the \<^verbatim>\<open>integrate\<close> calls it has
  received, oldest first.
\<close>

type_synonym TSDF = "(Image \<times> Intrinsic \<times> Transform) list"

text \<open>
  The attributes of a \<^verbatim>\<open>Policy\<close> object that the methods read or assign. An attribute
  that is assigned outside \<^verbatim>\<open>__init__\<close> is optional: \<open>None\<close> until its first
  assignment, when reading it raises \<^verbatim>\<open>AttributeError\<close>. \<open>published\<close> lists the
  messages handed to \<^verbatim>\<open>target_pose_pub.publish\<close>, oldest first.
\<close>

record Policy =
  H_EE_G :: Transform
  H_B_T :: Transform
  intrinsic :: Intrinsic
  tsdf :: TSDF
  last_depth_img :: "Image option"
  last_extrinsic :: "Transform option"
  best_grasp :: "Transform option"
  done_flag :: "bool option"
  published :: "Transform list"

text \<open>
  \<^verbatim>\<open>sensor_cb\<close> (lines 62-66): stores the decoded image, then the result of the frame
  lookup; a lookup that raises leaves the image assigned and the extrinsic as it was.
\<close>

definition sensor_cb ::
  "Image \<Rightarrow> failure + Transform \<Rightarrow> 'a Policy_scheme \<Rightarrow> failure option \<times> 'a Policy_scheme" where
  "sensor_cb img lookup self =
     (let self1 = self\<lparr>last_depth_img := Some img\<rparr>
      in case lookup of
           Inl e \<Rightarrow> (Some e, self1)
         | Inr extrinsic \<Rightarrow> (None, self1\<lparr>last_extrinsic := Some extrinsic\<rparr>))"

text \<open>
  Lines 84-87 of \<^verbatim>\<open>plan_best_grasp\<close>, under the comment "Ensure that the camera is
  pointing forward": the first column of the grasp's rotation matrix is read, and when
  its first component is negative the rotation attribute of the grasp's pose is
  reassigned to the rotation multiplied on the right by
  \<^verbatim>\<open>Rotation.from_euler("z", np.pi)\<close>. The test of line 86 is decided by the sign of a
  number that can be as small as the distance between \<^verbatim>\<open>np.pi\<close> and \<open>\<pi>\<close>, so the angle
  is taken at the value the double has.
\<close>

definition canonicalize :: "Grasp \<Rightarrow> Grasp" where
  "canonicalize grasp =
     (let rot = rotation (pose grasp);
          axis = column0 (as_matrix rot)
      in if fst axis < 0
         then grasp\<lparr>pose := (pose grasp)\<lparr>rotation := Rotation_mul rot (Rotation_from_euler_z np_pi)\<rparr>\<rparr>
         else grasp)"


text \<open>
  \<^verbatim>\<open>plan_best_grasp\<close> (lines 74-92). \<open>detect\<close> stands for lines 75-77, the external
  pipeline from the map to the candidate list (\<^verbatim>\<open>get_tsdf_grid\<close>, \<^verbatim>\<open>vgn.predict\<close>,
  \<^verbatim>\<open>compute_grasps\<close>); the drawing calls have no effect on the policy. Line 83 indexes
  the list, which raises \<^verbatim>\<open>IndexError\<close> when it is empty. The assignment of line 87
  changes the first candidate object in place, so the function is given with the
  contents of the candidate list when the call returns next to the returned pose.
\<close>

definition plan_best_grasp_heap ::
  "(TSDF \<Rightarrow> Grasp list) \<Rightarrow> 'a Policy_scheme \<Rightarrow> failure + (Grasp list \<times> Transform)" where
  "plan_best_grasp_heap detect self =
     (let grasps = detect (tsdf self)
      in case grasps of
           [] \<Rightarrow> Inl IndexError
         | grasp # rest \<Rightarrow>
             (let grasp' = canonicalize grasp;
                  H_T_G = pose grasp';
                  H_B_EE = Transform_mul (Transform_mul (H_B_T self) H_T_G) (Transform_inv (H_EE_G self))
              in Inr (grasp' # rest, H_B_EE)))"

definition plan_best_grasp ::
  "(TSDF \<Rightarrow> Grasp list) \<Rightarrow> 'a Policy_scheme \<Rightarrow> failure + Transform" where
  "plan_best_grasp detect self = map_sum id snd (plan_best_grasp_heap detect self)"

text \<open>
  Lines 104-108 and 139-143, the same statement in both strategies: the two sample
  attributes are read (the image first), then handed to the map with the intrinsics.
\<close>

definition integrate_sample :: "'a Policy_scheme \<Rightarrow> failure + 'a Policy_scheme" where
  "integrate_sample self =
     (case last_depth_img self of
        None \<Rightarrow> Inl (AttributeError ''last_depth_img'')
      | Some img \<Rightarrow>
          (case last_extrinsic self of
             None \<Rightarrow> Inl (AttributeError ''last_extrinsic'')
           | Some extrinsic \<Rightarrow>
               Inr (self\<lparr>tsdf := tsdf self @ [(img, intrinsic self, extrinsic)]\<rparr>)))"

text \<open>
  What \<^verbatim>\<open>Policy.__init__\<close> (lines 29-60) obtains from the parameter server, the camera
  and the frame service: the configured offset, the camera intrinsics and the outcome
  of the lookup of line 57.
\<close>

record Environment =
  ee_grasp_offset :: Transform
  camera_info :: Intrinsic
  base_lookup :: "failure + Transform"

definition Policy_init :: "Environment \<Rightarrow> failure + Policy" where
  "Policy_init env =
     (case base_lookup env of
        Inl e \<Rightarrow> Inl e
      | Inr H \<Rightarrow>
          Inr \<lparr>H_EE_G = ee_grasp_offset env, H_B_T = H, intrinsic = camera_info env,
               tsdf = [], last_depth_img = None, last_extrinsic = None,
               best_grasp = None, done_flag = None, published = []\<rparr>)"

section \<open>The single-view strategy\<close>

text \<open>\<^verbatim>\<open>SingleViewBaseline\<close> (lines 95-117) adds no attribute to \<^verbatim>\<open>Policy\<close>.\<close>

type_synonym SingleViewBaseline = Policy

definition SingleViewBaseline_init :: "Environment \<Rightarrow> failure + SingleViewBaseline" where
  "SingleViewBaseline_init env = Policy_init env"

definition SingleViewBaseline_start ::
  "SingleViewBaseline \<Rightarrow> failure option \<times> SingleViewBaseline" where
  "SingleViewBaseline_start self = (None, self\<lparr>done_flag := Some False\<rparr>)"

definition SingleViewBaseline_update ::
  "(TSDF \<Rightarrow> Grasp list) \<Rightarrow> SingleViewBaseline \<Rightarrow> failure option \<times> SingleViewBaseline" where
  "SingleViewBaseline_update detect self =
     (case integrate_sample self of
        Inl e \<Rightarrow> (Some e, self)
      | Inr self1 \<Rightarrow>
          (case plan_best_grasp detect self1 of
             Inl e \<Rightarrow> (Some e, self1)
           | Inr H_B_EE \<Rightarrow>
               (None, self1\<lparr>best_grasp := Some H_B_EE, done_flag := Some True\<rparr>)))"

section \<open>The fixed-trajectory strategy\<close>

text \<open>
  Modelled from the spec: \<^verbatim>\<open>scipy.interpolate.interp1d\<close> is not part of the sources.
  The specification gives the angle as a linear function of the elapsed time, defined
  between the two sample points; the interpolant of two points \<open>(x_lo, y_lo)\<close> and
  \<open>(x_hi, y_hi)\<close> is that line, and an argument outside \<open>[x_lo, x_hi]\<close> raises
  \<^verbatim>\<open>ValueError\<close>.
\<close>

definition interp1d :: "real \<times> real \<Rightarrow> real \<times> real \<Rightarrow> real \<Rightarrow> failure + real" where
  "interp1d x y x_new =
     (let x_lo = fst x; x_hi = snd x; y_lo = fst y; y_hi = snd y
      in if x_new < x_lo then Inl (ValueError ''A value in x_new is below the interpolation range.'')
         else if x_hi < x_new then Inl (ValueError ''A value in x_new is above the interpolation range.'')
         else Inr ((y_hi - y_lo) / (x_hi - x_lo) * (x_new - x_lo) + y_lo))"

text \<open>
  The attributes that \<^verbatim>\<open>FixedTrajectoryBaseline\<close> adds. In the interpolant of line 125
  \<^verbatim>\<open>np.pi\<close> is idealised as \<open>\<pi>\<close>: there the difference moves the commanded
  coordinates by amounts of the size of a rounding error and decides no branch.
\<close>

record FixedTrajectoryBaseline = Policy +
  duration :: real
  radius :: real
  m :: "real \<Rightarrow> failure + real"
  tic :: "real option"
  origin :: "vec3 option"
  target :: "Transform option"

definition FixedTrajectoryBaseline_init :: "Environment \<Rightarrow> failure + FixedTrajectoryBaseline" where
  "FixedTrajectoryBaseline_init env =
     (case Policy_init env of
        Inl e \<Rightarrow> Inl e
      | Inr self \<Rightarrow>
          (let duration = 4.0;
               radius = 0.1
           in Inr (Policy.extend self
                     (FixedTrajectoryBaseline.fields duration radius
                        (interp1d (0, duration) (pi, 3.0 * pi)) None None None))))"

text \<open>
  \<^verbatim>\<open>start\<close> (lines 127-133). \<open>now\<close> is the reading of \<^verbatim>\<open>rospy.Time.now()\<close> in seconds
  and \<open>lookup\<close> the outcome of the frame lookup of line 130; \<^verbatim>\<open>tic\<close> is assigned
  before the lookup is made.
\<close>

definition FixedTrajectoryBaseline_start ::
  "real \<Rightarrow> failure + Transform \<Rightarrow> FixedTrajectoryBaseline
     \<Rightarrow> failure option \<times> FixedTrajectoryBaseline" where
  "FixedTrajectoryBaseline_start now lookup self =
     (let self1 = self\<lparr>tic := Some now\<rparr>
      in case lookup of
           Inl e \<Rightarrow> (Some e, self1)
         | Inr x0 \<Rightarrow>
             (None,
              self1\<lparr>origin := Some (case translation x0 of (x, y, z) \<Rightarrow> (x + radius self1, y, z)),
                    target := Some x0,
                    done_flag := Some False\<rparr>))"

text \<open>
  \<^verbatim>\<open>update\<close> (lines 135-158). \<open>now\<close> is the reading of the clock at line 136. In the
  assignment of lines 155-157 the right-hand side is evaluated first, so \<^verbatim>\<open>origin\<close>
  is read before \<^verbatim>\<open>target\<close>. The message published is the target pose.
\<close>

definition FixedTrajectoryBaseline_update ::
  "(TSDF \<Rightarrow> Grasp list) \<Rightarrow> real \<Rightarrow> FixedTrajectoryBaseline
     \<Rightarrow> failure option \<times> FixedTrajectoryBaseline" where
  "FixedTrajectoryBaseline_update detect now self =
     (case tic self of
        None \<Rightarrow> (Some (AttributeError ''tic''), self)
      | Some t0 \<Rightarrow>
          (let elapsed_time = now - t0
           in case integrate_sample self of
                Inl e \<Rightarrow> (Some e, self)
              | Inr self1 \<Rightarrow>
                  if elapsed_time > duration self1
                  then (case plan_best_grasp detect self1 of
                          Inl e \<Rightarrow> (Some e, self1)
                        | Inr H_B_EE \<Rightarrow>
                            (None, self1\<lparr>best_grasp := Some H_B_EE, done_flag := Some True\<rparr>))
                  else (case m self1 elapsed_time of
                          Inl e \<Rightarrow> (Some e, self1)
                        | Inr t \<Rightarrow>
                            (case origin self1 of
                               None \<Rightarrow> (Some (AttributeError ''origin''), self1)
                             | Some org \<Rightarrow>
                                 (case target self1 of
                                    None \<Rightarrow> (Some (AttributeError ''target''), self1)
                                  | Some tgt \<Rightarrow>
                                      (let tgt' = tgt\<lparr>translation :=
                                                  vec_add org (radius self1 * cos t, radius self1 * sin t, 0.0)\<rparr>;
                                           self2 = self1\<lparr>target := Some tgt'\<rparr>
                                       in (None, self2\<lparr>published := published self2 @ [tgt']\<rparr>)))))))"

section \<open>The policy factory\<close>

datatype policy = SingleView SingleViewBaseline | FixedTrajectory FixedTrajectoryBaseline

text \<open>\<^verbatim>\<open>get_policy\<close> (lines 19-25); the constructors run in the environment \<open>env\<close>.\<close>

definition get_policy :: "Environment \<Rightarrow> string \<Rightarrow> failure + policy" where
  "get_policy env name =
     (if name = ''single-view'' then map_sum id SingleView (SingleViewBaseline_init env)
      else if name = ''fixed-trajectory'' then map_sum id FixedTrajectory (FixedTrajectoryBaseline_init env)
      else Inl (ValueError (name @ '' policy does not exist.'')))"

section \<open>Episodes\<close>

text \<open>
  The calls that reach a policy object, each with what the environment answers while it
  runs: the sensor callback with the decoded image and the outcome of its frame lookup,
  \<^verbatim>\<open>start()\<close> with the clock reading and the outcome of its frame lookup (which the
  single-view strategy does not use), and \<^verbatim>\<open>update()\<close> with the detection pipeline
  and the clock reading.
\<close>

datatype call =
    is_SensorCb: SensorCb Image "failure + Transform"
  | is_Start: Start real "failure + Transform"
  | is_Update: Update "TSDF \<Rightarrow> Grasp list" real

text \<open>
  One call on an object of either strategy; what the call raises goes to the caller and
  the object stays as the call left it.
\<close>

fun SingleViewBaseline_call :: "call \<Rightarrow> SingleViewBaseline \<Rightarrow> SingleViewBaseline" where
  "SingleViewBaseline_call (SensorCb img lookup) self = snd (sensor_cb img lookup self)"
| "SingleViewBaseline_call (Start now lookup) self = snd (SingleViewBaseline_start self)"
| "SingleViewBaseline_call (Update detect now) self = snd (SingleViewBaseline_update detect self)"

fun FixedTrajectoryBaseline_call ::
  "call \<Rightarrow> FixedTrajectoryBaseline \<Rightarrow> FixedTrajectoryBaseline" where
  "FixedTrajectoryBaseline_call (SensorCb img lookup) self = snd (sensor_cb img lookup self)"
| "FixedTrajectoryBaseline_call (Start now lookup) self =
     snd (FixedTrajectoryBaseline_start now lookup self)"
| "FixedTrajectoryBaseline_call (Update detect now) self =
     snd (FixedTrajectoryBaseline_update detect now self)"

text \<open>
  The specification's episode state, read off the \<^verbatim>\<open>done\<close> attribute: not started
  while the attribute has never been assigned, running while it is false, done when it
  is true; and the position of a state in the order the specification gives.
\<close>

datatype EpisodeState = NotStarted | Running | Done

definition episode_state :: "'a Policy_scheme \<Rightarrow> EpisodeState" where
  "episode_state self =
     (case done_flag self of
        None \<Rightarrow> NotStarted
      | Some d \<Rightarrow> if d then Done else Running)"

fun state_rank :: "EpisodeState \<Rightarrow> nat" where
  "state_rank NotStarted = 0"
| "state_rank Running = 1"
| "state_rank Done = 2"

text \<open>
  What holds of a fixed-trajectory object from \<^verbatim>\<open>start()\<close> on, as long as it is not
  started again: the start time \<open>t0\<close> and the origin \<open>org\<close> stay, the target keeps the
  orientation of the start pose \<open>x0\<close>, a sensor sample is there, and the constants of
  the constructor are as it set them.
\<close>

definition scanning_state ::
  "real \<Rightarrow> vec3 \<Rightarrow> Transform \<Rightarrow> FixedTrajectoryBaseline \<Rightarrow> bool" where
  "scanning_state t0 org x0 self \<longleftrightarrow>
     tic self = Some t0 \<and> origin self = Some org
     \<and> (\<exists>tgt. target self = Some tgt \<and> rotation tgt = rotation x0)
     \<and> last_depth_img self \<noteq> None \<and> last_extrinsic self \<noteq> None
     \<and> duration self = 4 \<and> radius self = 1 / 10
     \<and> m self = interp1d (0, 4) (pi, 3 * pi)"

section \<open>Concrete inputs\<close>

text \<open>
  The two candidates of the specification's single-view scenario: the best-scored one
  has its forward axis along \<open>-x\<close> (it is a half turn about z), the second along \<open>+x\<close>.
\<close>

definition example_back_grasp :: Grasp where
  "example_back_grasp =
     \<lparr>pose = \<lparr>rotation = Rotation ((- 1, 0, 0), (0, - 1, 0), (0, 0, 1)),
              translation = (1 / 10, 1 / 5, 3 / 10)\<rparr>,
      quality = 9 / 10, width = 1 / 20\<rparr>"

definition example_front_grasp :: Grasp where
  "example_front_grasp =
     \<lparr>pose = \<lparr>rotation = Rotation ((1, 0, 0), (0, 1, 0), (0, 0, 1)),
              translation = (1 / 5, 1 / 10, 1 / 10)\<rparr>,
      quality = 7 / 10, width = 1 / 25\<rparr>"



text \<open>
  A policy whose base frame is a quarter turn about z away from the task frame, with a
  tool offset of 0.1 along z.
\<close>

definition example_policy :: Policy where
  "example_policy =
     \<lparr>H_EE_G = \<lparr>rotation = Rotation ((1, 0, 0), (0, 1, 0), (0, 0, 1)), translation = (0, 0, 1 / 10)\<rparr>,
      H_B_T = \<lparr>rotation = Rotation ((0, - 1, 0), (1, 0, 0), (0, 0, 1)), translation = (1, 2, 3)\<rparr>,
      intrinsic = [], tsdf = [], last_depth_img = None, last_extrinsic = None,
      best_grasp = None, done_flag = None, published = []\<rparr>"

text \<open>
  The environment in which the constructors build \<open>example_policy\<close>, and the
  fixed-trajectory object they build in it.
\<close>

definition example_environment :: Environment where
  "example_environment =
     \<lparr>ee_grasp_offset = H_EE_G example_policy, camera_info = [],
      base_lookup = Inr (H_B_T example_policy)\<rparr>"

definition example_fixed_trajectory :: FixedTrajectoryBaseline where
  "example_fixed_trajectory =
     Policy.extend example_policy
       (FixedTrajectoryBaseline.fields 4.0 0.1 (interp1d (0, 4.0) (pi, 3.0 * pi)) None None None)"

text \<open>
  A sensor sample, and the end-effector pose of the specification's fixed-trajectory
  scenario, whose translation is \<open>(0.5, 0, 0.3)\<close>.
\<close>

definition example_image :: Image where
  "example_image = [[1 / 2, 3 / 5], [7 / 10, 4 / 5]]"

definition example_extrinsic :: Transform where
  "example_extrinsic =
     \<lparr>rotation = Rotation ((1, 0, 0), (0, - 1, 0), (0, 0, - 1)), translation = (0, 0, 1 / 2)\<rparr>"

definition example_x0 :: Transform where
  "example_x0 =
     \<lparr>rotation = Rotation ((1, 0, 0), (0, - 1, 0), (0, 0, - 1)), translation = (1 / 2, 0, 3 / 10)\<rparr>"

text \<open>
  A detection pipeline that always proposes the two candidates, best first; an episode
  in which a sample arrives, the strategy is started and is updated five seconds later;
  and the fixed-trajectory object after the sample and the start.
\<close>

definition example_detect :: "TSDF \<Rightarrow> Grasp list" where
  "example_detect = (\<lambda>_. [example_back_grasp, example_front_grasp])"

definition example_episode :: "call list" where
  "example_episode =
     [SensorCb example_image (Inr example_extrinsic), Start 0 (Inr example_x0),
      Update example_detect 5]"

definition example_started :: FixedTrajectoryBaseline where
  "example_started =
     snd (FixedTrajectoryBaseline_start 0 (Inr example_x0)
            (snd (sensor_cb example_image (Inr example_extrinsic) example_fixed_trajectory)))"

section \<open>Properties of the spatial algebra\<close>

lemma mat_mul_identity_right: "mat_mul A mat_identity = A"
  by (cases A rule: prod_cases3) (auto simp: mat_identity_def)

lemma mat_mul_identity_left: "mat_mul mat_identity A = A"
  by (cases A rule: prod_cases3) (auto simp: mat_identity_def)

lemma mat_transpose_identity: "mat_transpose mat_identity = mat_identity"
  by (simp add: mat_transpose_def mat_identity_def)

lemma mat_vec_zero: "mat_vec A (0, 0, 0) = (0, 0, 0)"
  by (cases A rule: prod_cases3) auto

lemma mat_vec_identity: "mat_vec mat_identity v = v"
  by (cases v rule: prod_cases3) (simp add: mat_identity_def)

lemma mat_mul_assoc: "mat_mul (mat_mul A B) C = mat_mul A (mat_mul B C)"
  apply (cases A rule: prod_cases3; cases B rule: prod_cases3; cases C rule: prod_cases3)
  apply (auto simp: algebra_simps)
  done

lemma mat_vec_mul: "mat_vec (mat_mul A B) v = mat_vec A (mat_vec B v)"
  apply (cases A rule: prod_cases3; cases B rule: prod_cases3; cases v rule: prod_cases3)
  apply (auto simp: algebra_simps)
  done

lemma mat_vec_add: "mat_vec A (vec_add u v) = vec_add (mat_vec A u) (mat_vec A v)"
  apply (cases A rule: prod_cases3; cases u rule: prod_cases3; cases v rule: prod_cases3)
  apply (auto simp: algebra_simps)
  done

lemma vec_add_assoc: "vec_add (vec_add u v) w = vec_add u (vec_add v w)"
  by (cases u rule: prod_cases3; cases v rule: prod_cases3; cases w rule: prod_cases3) auto

lemma Transform_mul_assoc:
  "Transform_mul (Transform_mul a b) c = Transform_mul a (Transform_mul b c)"
  by (simp add: Transform_mul_def Rotation_mul_def Rotation_apply_def mat_mul_assoc
      mat_vec_mul mat_vec_add vec_add_assoc)

lemma Transform_inv_identity: "Transform_inv Transform_identity = Transform_identity"
  by (simp add: Transform_inv_def Transform_identity_def Rotation_inv_def Rotation_identity_def
      mat_transpose_identity Rotation_apply_def mat_vec_zero)

lemma Transform_mul_identity_right: "Transform_mul a Transform_identity = a"
  apply (cases "translation a" rule: prod_cases3)
  apply (simp add: Transform_mul_def Transform_identity_def Rotation_mul_def Rotation_identity_def
      mat_mul_identity_right Rotation_apply_def mat_vec_zero)
  done

lemma Transform_mul_identity_left: "Transform_mul Transform_identity a = a"
  apply (cases "translation a" rule: prod_cases3)
  apply (simp add: Transform_mul_def Transform_identity_def Rotation_mul_def Rotation_identity_def
      mat_mul_identity_left Rotation_apply_def mat_vec_identity)
  done


lemma column0_turn:
  "fst (column0 (as_matrix (Rotation_mul rot (Rotation_from_euler_z angle)))) =
     fst (column0 (as_matrix rot)) * cos angle + fst (column1 (as_matrix rot)) * sin angle"
  by (cases "as_matrix rot" rule: prod_cases3)
     (auto simp: Rotation_mul_def Rotation_from_euler_z_def)

lemma column1_turn:
  "fst (column1 (as_matrix (Rotation_mul rot (Rotation_from_euler_z angle)))) =
     fst (column1 (as_matrix rot)) * cos angle - fst (column0 (as_matrix rot)) * sin angle"
  by (cases "as_matrix rot" rule: prod_cases3)
     (auto simp: Rotation_mul_def Rotation_from_euler_z_def)


lemma orthonormal_first_row:
  assumes "orthonormal A"
  shows "(fst (column0 A))\<^sup>2 + (fst (column1 A))\<^sup>2 + (fst (column2 A))\<^sup>2 = 1"
  using assms
  by (cases A rule: prod_cases3)
     (auto simp: orthonormal_def mat_transpose_def mat_identity_def power2_eq_square)

lemma orthonormal_entry_le_one:
  assumes "orthonormal A"
  shows "\<bar>fst (column1 A)\<bar> \<le> 1"
proof -
  have "(fst (column1 A))\<^sup>2 \<le> (fst (column0 A))\<^sup>2 + (fst (column1 A))\<^sup>2 + (fst (column2 A))\<^sup>2"
    by simp
  then have "(fst (column1 A))\<^sup>2 \<le> 1\<^sup>2"
    using orthonormal_first_row [OF assms] by simp
  then show ?thesis
    by (simp add: abs_square_le_1)
qed

section \<open>The distance between numpy's constant and \<open>\<pi>\<close>\<close>

text \<open>
  The partial sums of the arctangent series enclose the arctangent, from below after an
  even number of terms and from above after an odd number.
\<close>

lemma arctan_series_bounds:
  fixes x :: real
  assumes "0 \<le> x" "x \<le> 1"
  shows "(\<Sum>i<2 * n. (- 1) ^ i * (1 / real (i * 2 + 1) * x ^ (i * 2 + 1))) \<le> arctan x"
    and "arctan x \<le> (\<Sum>i<2 * n + 1. (- 1) ^ i * (1 / real (i * 2 + 1) * x ^ (i * 2 + 1)))"
proof -
  let ?a = "\<lambda>n. 1 / real (n * 2 + 1) * x ^ (n * 2 + 1)"
  have abs: "\<bar>x\<bar> \<le> 1"
    using assms by simp
  have zero: "?a \<longlonglongrightarrow> 0"
    using abs by (rule zeroseq_arctan_series)
  have pos: "0 \<le> ?a k" for k
    using assms by simp
  have mono: "?a (Suc k) \<le> ?a k" for k
  proof -
    have "x ^ (Suc k * 2 + 1) = x ^ (k * 2 + 1) * x\<^sup>2"
      by (simp add: power2_eq_square)
    also have "\<dots> \<le> x ^ (k * 2 + 1) * 1"
      using assms by (intro mult_left_mono) (simp_all add: power_le_one)
    finally have 1: "x ^ (Suc k * 2 + 1) \<le> x ^ (k * 2 + 1)"
      by simp
    have 2: "1 / real (Suc k * 2 + 1) \<le> 1 / real (k * 2 + 1)"
      by (simp add: field_simps)
    show ?thesis
      using 1 2 assms by (intro mult_mono) simp_all
  qed
  note leibniz = summable_Leibniz' [of ?a, OF zero pos mono]
  show "(\<Sum>i<2 * n. (- 1) ^ i * (1 / real (i * 2 + 1) * x ^ (i * 2 + 1))) \<le> arctan x"
    unfolding arctan_series [OF abs] by (rule leibniz(2))
  show "arctan x \<le> (\<Sum>i<2 * n + 1. (- 1) ^ i * (1 / real (i * 2 + 1) * x ^ (i * 2 + 1)))"
    unfolding arctan_series [OF abs] by (rule leibniz(4))
qed

text \<open>
  With Machin's formula, twelve and thirteen terms for \<open>1 / 5\<close> and five and four terms
  for \<open>1 / 239\<close> place \<open>\<pi>\<close> between \<open>1e-16\<close> and \<open>2e-16\<close> above \<^verbatim>\<open>np.pi\<close>.
\<close>

lemma np_pi_less_pi: "np_pi + 1 / 10 ^ 16 < pi"
proof -
  have 1: "(\<Sum>i<2 * 6. (- 1) ^ i * (1 / real (i * 2 + 1) * (1 / 5) ^ (i * 2 + 1)))
             \<le> arctan (1 / 5 :: real)"
    by (rule arctan_series_bounds) simp_all
  have 2: "arctan (1 / 239 :: real)
             \<le> (\<Sum>i<2 * 2 + 1. (- 1) ^ i * (1 / real (i * 2 + 1) * (1 / 239) ^ (i * 2 + 1)))"
    by (rule arctan_series_bounds) simp_all
  have "pi = 16 * arctan (1 / 5) - 4 * arctan (1 / 239)"
    using machin by simp
  with 1 2
  have "16 * (\<Sum>i<2 * 6. (- 1) ^ i * (1 / real (i * 2 + 1) * (1 / 5) ^ (i * 2 + 1)))
      - 4 * (\<Sum>i<2 * 2 + 1. (- 1) ^ i * (1 / real (i * 2 + 1) * (1 / 239) ^ (i * 2 + 1))) \<le> pi"
    by simp
  moreover
  have "np_pi + 1 / 10 ^ 16
      < 16 * (\<Sum>i<2 * 6. (- 1) ^ i * (1 / real (i * 2 + 1) * (1 / 5) ^ (i * 2 + 1)))
      - 4 * (\<Sum>i<2 * 2 + 1. (- 1) ^ i * (1 / real (i * 2 + 1) * (1 / 239) ^ (i * 2 + 1)))"
    by (simp add: np_pi_def eval_nat_numeral)
  ultimately show ?thesis by simp
qed

lemma pi_less_np_pi: "pi < np_pi + 2 / 10 ^ 16"
proof -
  have 1: "arctan (1 / 5 :: real)
             \<le> (\<Sum>i<2 * 6 + 1. (- 1) ^ i * (1 / real (i * 2 + 1) * (1 / 5) ^ (i * 2 + 1)))"
    by (rule arctan_series_bounds) simp_all
  have 2: "(\<Sum>i<2 * 2. (- 1) ^ i * (1 / real (i * 2 + 1) * (1 / 239) ^ (i * 2 + 1)))
             \<le> arctan (1 / 239 :: real)"
    by (rule arctan_series_bounds) simp_all
  have "pi = 16 * arctan (1 / 5) - 4 * arctan (1 / 239)"
    using machin by simp
  with 1 2
  have "pi \<le> 16 * (\<Sum>i<2 * 6 + 1. (- 1) ^ i * (1 / real (i * 2 + 1) * (1 / 5) ^ (i * 2 + 1)))
      - 4 * (\<Sum>i<2 * 2. (- 1) ^ i * (1 / real (i * 2 + 1) * (1 / 239) ^ (i * 2 + 1)))"
    by simp
  moreover
  have "16 * (\<Sum>i<2 * 6 + 1. (- 1) ^ i * (1 / real (i * 2 + 1) * (1 / 5) ^ (i * 2 + 1)))
      - 4 * (\<Sum>i<2 * 2. (- 1) ^ i * (1 / real (i * 2 + 1) * (1 / 239) ^ (i * 2 + 1)))
      < np_pi + 2 / 10 ^ 16"
    by (simp add: np_pi_def eval_nat_numeral)
  ultimately show ?thesis by simp
qed

text \<open>
  So the rotation about z by \<^verbatim>\<open>np.pi\<close> is not quite a half turn: its sine is positive,
  between \<open>5e-17\<close> and \<open>2e-16\<close>, and its cosine is negative and not \<open>-1\<close>.
\<close>

lemma sin_np_pi: "1 / (2 * 10 ^ 16) \<le> sin np_pi" "sin np_pi \<le> 2 / 10 ^ 16" "0 < sin np_pi"
proof -
  define d where "d = pi - np_pi"
  have d: "1 / 10 ^ 16 < d" "d < 2 / 10 ^ 16"
    using np_pi_less_pi pi_less_np_pi by (simp_all add: d_def)
  have sin: "sin np_pi = sin d"
    by (simp add: d_def)
  have "\<bar>sin d - (\<Sum>m<3. sin_coeff m * d ^ m)\<bar> \<le> inverse (fact 3) * \<bar>d\<bar> ^ 3"
    by (rule Maclaurin_sin_bound)
  then have "\<bar>sin d - d\<bar> \<le> d ^ 3 / 6"
    using d by (simp add: sin_coeff_def eval_nat_numeral field_simps)
  then have "d - d ^ 3 / 6 \<le> sin d"
    by linarith
  moreover have "d ^ 3 \<le> d * 1"
  proof -
    have "d ^ 3 = d * d\<^sup>2"
      by (simp add: eval_nat_numeral)
    also have "\<dots> \<le> d * 1"
      using d by (intro mult_left_mono) (simp_all add: power_le_one)
    finally show ?thesis .
  qed
  ultimately have "d / 2 \<le> sin d"
    using d by linarith
  with d show "1 / (2 * 10 ^ 16) \<le> sin np_pi"
    unfolding sin by simp
  then show "0 < sin np_pi"
    by (rule less_le_trans [rotated]) simp
  have "sin d \<le> d"
    using d by (intro sin_x_le_x) simp
  with d show "sin np_pi \<le> 2 / 10 ^ 16"
    unfolding sin by simp
qed

lemma cos_np_pi: "cos np_pi \<le> - 1 / 2" "cos np_pi < 0" "cos np_pi \<noteq> 1" "- 1 \<le> cos np_pi"
proof -
  define d where "d = pi - np_pi"
  have d: "0 \<le> d" "d \<le> pi / 3"
    using np_pi_less_pi pi_less_np_pi pi_ge_two by (simp_all add: d_def)
  have cos: "cos np_pi = - cos d"
    by (simp add: d_def)
  have "cos (pi / 3) \<le> cos d"
    using d by (intro cos_monotone_0_pi_le) simp_all
  then show "cos np_pi \<le> - 1 / 2"
    unfolding cos by (simp add: cos_60)
  then show "cos np_pi < 0" "cos np_pi \<noteq> 1"
    by simp_all
  show "- 1 \<le> cos np_pi"
    by simp
qed

section \<open>Properties of the canonicalization step\<close>

lemma canonicalize_keeps:
  "quality (canonicalize grasp) = quality grasp"
  "width (canonicalize grasp) = width grasp"
  "translation (pose (canonicalize grasp)) = translation (pose grasp)"
  by (simp_all add: canonicalize_def Let_def)

lemma canonicalize_forward:
  "0 \<le> fst (column0 (as_matrix (rotation (pose grasp)))) \<Longrightarrow> canonicalize grasp = grasp"
  by (simp add: canonicalize_def Let_def)

lemma canonicalize_backward:
  "fst (column0 (as_matrix (rotation (pose grasp)))) < 0 \<Longrightarrow>
     rotation (pose (canonicalize grasp)) =
       Rotation_mul (rotation (pose grasp)) (Rotation_from_euler_z np_pi)"
  by (simp add: canonicalize_def Let_def)


text \<open>A rotation whose forward axis has a non-zero first component is changed by the turn.\<close>

lemma turn_changes:
  assumes "fst (column0 (as_matrix rot)) \<noteq> 0"
  shows "Rotation_mul rot (Rotation_from_euler_z np_pi) \<noteq> rot"
proof
  let ?a = "fst (column0 (as_matrix rot))" and ?b = "fst (column1 (as_matrix rot))"
  let ?c = "cos np_pi" and ?s = "sin np_pi"
  assume eq: "Rotation_mul rot (Rotation_from_euler_z np_pi) = rot"
  have 1: "?a * ?c + ?b * ?s = ?a"
    using column0_turn [of rot np_pi] by (simp add: eq)
  have 2: "?b * ?c - ?a * ?s = ?b"
    using column1_turn [of rot np_pi] by (simp add: eq)
  have "?a * ((?c - 1)\<^sup>2 + ?s\<^sup>2) = (?a * ?c + ?b * ?s - ?a) * (?c - 1) - (?b * ?c - ?a * ?s - ?b) * ?s"
    by algebra
  also have "\<dots> = 0"
    using 1 2 by simp
  finally have "(?c - 1)\<^sup>2 + ?s\<^sup>2 = 0"
    using assms by simp
  then have "?c - 1 = 0"
    by (simp add: sum_power2_eq_zero_iff)
  then show False
    using cos_np_pi(3) by simp
qed

lemma canonicalize_example_back_grasp:
  "canonicalize example_back_grasp =
     example_back_grasp
       \<lparr>pose := (pose example_back_grasp)
          \<lparr>rotation := Rotation ((- cos np_pi, sin np_pi, 0), (- sin np_pi, - cos np_pi, 0), (0, 0, 1))\<rparr>\<rparr>"
  by (simp add: canonicalize_def example_back_grasp_def Rotation_from_euler_z_def Rotation_mul_def
      Let_def)

lemma axis_example_back_grasp:
  "fst (column0 (as_matrix (rotation (pose example_back_grasp)))) = - 1"
  by (simp add: example_back_grasp_def)

lemma axis_example_front_grasp:
  "fst (column0 (as_matrix (rotation (pose example_front_grasp)))) = 1"
  by (simp add: example_front_grasp_def)

section \<open>Grasp selection\<close>

lemma plan_best_grasp_heap_Cons:
  "detect (tsdf self) = grasp # rest \<Longrightarrow>
     plan_best_grasp_heap detect self =
       Inr (canonicalize grasp # rest,
            Transform_mul (Transform_mul (H_B_T self) (pose (canonicalize grasp)))
              (Transform_inv (H_EE_G self)))"
  by (simp add: plan_best_grasp_heap_def Let_def)

lemma plan_best_grasp_heap_Nil:
  "detect (tsdf self) = [] \<Longrightarrow> plan_best_grasp_heap detect self = Inl IndexError"
  by (simp add: plan_best_grasp_heap_def Let_def)

lemma plan_best_grasp_Nil:
  "detect (tsdf self) = [] \<Longrightarrow> plan_best_grasp detect self = Inl IndexError"
  by (simp add: plan_best_grasp_def plan_best_grasp_heap_Nil)

lemma plan_best_grasp_Cons:
  "detect (tsdf self) = grasp # rest \<Longrightarrow>
     plan_best_grasp detect self =
       Inr (Transform_mul (Transform_mul (H_B_T self) (pose (canonicalize grasp)))
              (Transform_inv (H_EE_G self)))"
  by (simp add: plan_best_grasp_def plan_best_grasp_heap_Cons)

text \<open>
  Claim C1. For a non-empty candidate list, the pose that \<^verbatim>\<open>plan_best_grasp\<close> returns
  is the product, in this order, of the cached base transform \<open>H_B_T\<close>, the pose of the
  selected candidate as it stands after the canonicalization step, and the inverse of
  the end-effector grasp offset \<open>H_EE_G\<close>. The product is associative, so the grouping
  of the three factors does not matter. When the offset is the identity transform the
  returned pose is the base transform times the candidate's pose.
\<close>

theorem plan_best_grasp_composition:
  assumes "detect (tsdf self) = grasp # rest"
  shows "plan_best_grasp detect self =
           Inr (Transform_mul (Transform_mul (H_B_T self) (pose (canonicalize grasp)))
                  (Transform_inv (H_EE_G self)))
       \<and> plan_best_grasp detect self =
           Inr (Transform_mul (H_B_T self)
                  (Transform_mul (pose (canonicalize grasp)) (Transform_inv (H_EE_G self))))
       \<and> (H_EE_G self = Transform_identity \<longrightarrow>
            plan_best_grasp detect self =
              Inr (Transform_mul (H_B_T self) (pose (canonicalize grasp))))"
  using assms
  by (simp add: plan_best_grasp_def plan_best_grasp_heap_def Let_def Transform_mul_assoc
      Transform_inv_identity Transform_mul_identity_right)

theorem plan_best_grasp_composition_witness:
  "plan_best_grasp (\<lambda>_. [example_back_grasp, example_front_grasp]) example_policy =
     Inr \<lparr>rotation = Rotation ((sin np_pi, cos np_pi, 0), (- cos np_pi, sin np_pi, 0), (0, 0, 1)),
          translation = (4 / 5, 21 / 10, 16 / 5)\<rparr>
   \<and> plan_best_grasp (\<lambda>_. [example_back_grasp, example_front_grasp])
       (example_policy\<lparr>H_EE_G := Transform_identity\<rparr>) =
     Inr \<lparr>rotation = Rotation ((sin np_pi, cos np_pi, 0), (- cos np_pi, sin np_pi, 0), (0, 0, 1)),
          translation = (4 / 5, 21 / 10, 33 / 10)\<rparr>"
proof -
  let ?detect = "\<lambda>_::TSDF. [example_back_grasp, example_front_grasp]"
  let ?ident = "example_policy\<lparr>H_EE_G := Transform_identity\<rparr>"
  have 1: "plan_best_grasp ?detect example_policy =
             Inr (Transform_mul (Transform_mul (H_B_T example_policy) (pose (canonicalize example_back_grasp)))
                    (Transform_inv (H_EE_G example_policy)))"
  proof -
    have "?detect (tsdf example_policy) = example_back_grasp # [example_front_grasp]"
      by simp
    then show ?thesis
      using plan_best_grasp_composition
              [of ?detect example_policy example_back_grasp "[example_front_grasp]"]
      by blast
  qed
  have 2: "plan_best_grasp ?detect ?ident =
             Inr (Transform_mul (H_B_T ?ident) (pose (canonicalize example_back_grasp)))"
  proof -
    have "?detect (tsdf ?ident) = example_back_grasp # [example_front_grasp]"
      and "H_EE_G ?ident = Transform_identity"
      by simp_all
    then show ?thesis
      using plan_best_grasp_composition
              [of ?detect ?ident example_back_grasp "[example_front_grasp]"]
      by blast
  qed
  have 3: "Transform_mul (Transform_mul (H_B_T example_policy) (pose (canonicalize example_back_grasp)))
             (Transform_inv (H_EE_G example_policy)) =
           \<lparr>rotation = Rotation ((sin np_pi, cos np_pi, 0), (- cos np_pi, sin np_pi, 0), (0, 0, 1)),
            translation = (4 / 5, 21 / 10, 16 / 5)\<rparr>"
    by (simp add: canonicalize_example_back_grasp)
       (simp add: example_policy_def example_back_grasp_def Transform_mul_def Transform_inv_def
          Rotation_mul_def Rotation_inv_def Rotation_apply_def mat_transpose_def Let_def)
  have 4: "Transform_mul (H_B_T ?ident) (pose (canonicalize example_back_grasp)) =
           \<lparr>rotation = Rotation ((sin np_pi, cos np_pi, 0), (- cos np_pi, sin np_pi, 0), (0, 0, 1)),
            translation = (4 / 5, 21 / 10, 33 / 10)\<rparr>"
    by (simp add: canonicalize_example_back_grasp)
       (simp add: example_policy_def example_back_grasp_def Transform_mul_def
          Rotation_mul_def Rotation_apply_def)
  show ?thesis
    unfolding 1 2 3 4 by simp
qed

text \<open>
  Claim C2, as the code has it. When the extractor returns an empty list,
  \<^verbatim>\<open>plan_best_grasp\<close> fails with Python's \<^verbatim>\<open>IndexError\<close>, raised by indexing the
  empty list at line 83, and returns no pose; it fails in no other case, and never with
  \<^verbatim>\<open>NoGraspFound\<close>, which the code does not have.
\<close>

theorem plan_best_grasp_empty:
  "(detect (tsdf self) = [] \<longrightarrow>
      plan_best_grasp detect self = Inl IndexError
      \<and> plan_best_grasp_heap detect self = Inl IndexError)
   \<and> (plan_best_grasp detect self = Inl e \<longrightarrow> detect (tsdf self) = [] \<and> e = IndexError)
   \<and> plan_best_grasp detect self \<noteq> Inl NoGraspFound"
  by (cases "detect (tsdf self)")
     (auto simp: plan_best_grasp_Nil plan_best_grasp_heap_Nil plan_best_grasp_Cons)

theorem plan_best_grasp_empty_witness:
  "plan_best_grasp (\<lambda>_. []) example_policy = Inl IndexError
   \<and> plan_best_grasp_heap (\<lambda>_. []) example_policy = Inl IndexError"
  using plan_best_grasp_empty [of "\<lambda>_. []" example_policy IndexError]
  by simp

text \<open>
  The claim as stated fails on an empty candidate list: the failure is the
  \<^verbatim>\<open>IndexError\<close> of the index operation, not \<^verbatim>\<open>NoGraspFound\<close>.
\<close>

theorem plan_best_grasp_empty_counterexample:
  "plan_best_grasp (\<lambda>_. []) example_policy = Inl IndexError
   \<and> plan_best_grasp (\<lambda>_. []) example_policy \<noteq> Inl NoGraspFound"
  by (simp add: plan_best_grasp_Nil)

lemma canonicalize_clear_axis:
  assumes "orthonormal (as_matrix (rotation (pose grasp)))"
    and "0 \<le> fst (column0 (as_matrix (rotation (pose grasp))))
         \<or> fst (column0 (as_matrix (rotation (pose grasp)))) \<le> - 1 / 10 ^ 15"
  shows "0 \<le> fst (column0 (as_matrix (rotation (pose (canonicalize grasp)))))"
proof (cases "0 \<le> fst (column0 (as_matrix (rotation (pose grasp))))")
  case True
  then show ?thesis
    by (simp add: canonicalize_forward)
next
  case False
  let ?a = "fst (column0 (as_matrix (rotation (pose grasp))))"
  let ?b = "fst (column1 (as_matrix (rotation (pose grasp))))"
  from False assms(2) have a: "?a \<le> - 1 / 10 ^ 15" "?a < 0"
    by simp_all
  have "(- ?a) * (1 / 2) \<le> (- ?a) * (- cos np_pi)"
    using a cos_np_pi(1) by (intro mult_left_mono) simp_all
  then have 1: "1 / (2 * 10 ^ 15) \<le> ?a * cos np_pi"
    using a by simp
  have "\<bar>?b * sin np_pi\<bar> \<le> 1 * sin np_pi"
    unfolding abs_mult
    using orthonormal_entry_le_one [OF assms(1)] sin_np_pi(3) by (intro mult_mono) simp_all
  then have 2: "- (2 / 10 ^ 16) \<le> ?b * sin np_pi"
    using sin_np_pi(2) by linarith
  have "fst (column0 (as_matrix (rotation (pose (canonicalize grasp))))) =
          ?a * cos np_pi + ?b * sin np_pi"
    using a by (simp add: canonicalize_backward column0_turn)
  with 1 2 show ?thesis
    by simp
qed









text \<open>
  Where the step leaves a non-negative forward component it is idempotent: for a
  rotation matrix whose forward component is non-negative or at most \<open>-1e-15\<close>.
\<close>

lemma canonicalize_idempotent_clear:
  assumes "orthonormal (as_matrix (rotation (pose grasp)))"
    and "0 \<le> fst (column0 (as_matrix (rotation (pose grasp))))
         \<or> fst (column0 (as_matrix (rotation (pose grasp)))) \<le> - 1 / 10 ^ 15"
  shows "canonicalize (canonicalize grasp) = canonicalize grasp"
  using canonicalize_clear_axis [OF assms] by (rule canonicalize_forward)


text \<open>
  Claim C9, as the code has it. \<^verbatim>\<open>plan_best_grasp\<close> leaves every candidate after the
  first untouched, and of the first candidate its score, its width and the translation
  of its pose. When the forward axis of the first candidate has a non-negative first
  component the whole list is untouched; when it is negative the rotation of the first
  candidate's pose is overwritten in place with a different rotation, the old one
  multiplied on the right by the rotation about z by \<^verbatim>\<open>np.pi\<close>.
\<close>

theorem plan_best_grasp_frame:
  assumes "detect (tsdf self) = grasp # rest"
  shows "\<exists>grasp' H_B_EE.
           plan_best_grasp_heap detect self = Inr (grasp' # rest, H_B_EE)
         \<and> quality grasp' = quality grasp
         \<and> width grasp' = width grasp
         \<and> translation (pose grasp') = translation (pose grasp)
         \<and> (0 \<le> fst (column0 (as_matrix (rotation (pose grasp)))) \<longrightarrow> grasp' = grasp)
         \<and> (fst (column0 (as_matrix (rotation (pose grasp)))) < 0 \<longrightarrow>
              rotation (pose grasp') =
                Rotation_mul (rotation (pose grasp)) (Rotation_from_euler_z np_pi)
              \<and> rotation (pose grasp') \<noteq> rotation (pose grasp))"
proof -
  have "rotation (pose (canonicalize grasp)) \<noteq> rotation (pose grasp)"
    if "fst (column0 (as_matrix (rotation (pose grasp)))) < 0"
    using that turn_changes [of "rotation (pose grasp)"] by (simp add: canonicalize_backward)
  then show ?thesis
    using assms
    by (simp add: plan_best_grasp_heap_Cons canonicalize_keeps canonicalize_forward
        canonicalize_backward)
qed

theorem plan_best_grasp_frame_witness:
  "(\<exists>grasp' H_B_EE.
      plan_best_grasp_heap (\<lambda>_. [example_back_grasp, example_front_grasp]) example_policy =
        Inr (grasp' # [example_front_grasp], H_B_EE)
      \<and> quality grasp' = 9 / 10 \<and> width grasp' = 1 / 20
      \<and> translation (pose grasp') = (1 / 10, 1 / 5, 3 / 10)
      \<and> rotation (pose grasp') \<noteq> rotation (pose example_back_grasp))
   \<and> (\<exists>H_B_EE.
      plan_best_grasp_heap (\<lambda>_. [example_front_grasp, example_back_grasp]) example_policy =
        Inr ([example_front_grasp, example_back_grasp], H_B_EE))"
proof -
  let ?detect = "\<lambda>_::TSDF. [example_back_grasp, example_front_grasp]"
  let ?swapped = "\<lambda>_::TSDF. [example_front_grasp, example_back_grasp]"
  have neg: "fst (column0 (as_matrix (rotation (pose example_back_grasp)))) < 0"
    by (simp add: axis_example_back_grasp)
  have nonneg: "0 \<le> fst (column0 (as_matrix (rotation (pose example_front_grasp))))"
    by (simp add: axis_example_front_grasp)
  have fields: "quality example_back_grasp = 9 / 10" "width example_back_grasp = 1 / 20"
    "translation (pose example_back_grasp) = (1 / 10, 1 / 5, 3 / 10)"
    by (simp_all add: example_back_grasp_def)
  have "?detect (tsdf example_policy) = example_back_grasp # [example_front_grasp]"
    by simp
  with plan_best_grasp_frame [of ?detect example_policy example_back_grasp "[example_front_grasp]"]
    neg fields
  have 1: "\<exists>grasp' H_B_EE.
      plan_best_grasp_heap ?detect example_policy = Inr (grasp' # [example_front_grasp], H_B_EE)
      \<and> quality grasp' = 9 / 10 \<and> width grasp' = 1 / 20
      \<and> translation (pose grasp') = (1 / 10, 1 / 5, 3 / 10)
      \<and> rotation (pose grasp') \<noteq> rotation (pose example_back_grasp)"
    by fastforce
  have "?swapped (tsdf example_policy) = example_front_grasp # [example_back_grasp]"
    by simp
  with plan_best_grasp_frame [of ?swapped example_policy example_front_grasp "[example_back_grasp]"]
    nonneg
  have 2: "\<exists>H_B_EE. plan_best_grasp_heap ?swapped example_policy =
             Inr ([example_front_grasp, example_back_grasp], H_B_EE)"
    by fastforce
  from 1 2 show ?thesis by (rule conjI)
qed

text \<open>
  The claim as stated fails for a first candidate that faces backwards: the list the
  extractor returned no longer holds the candidate it produced.
\<close>

theorem plan_best_grasp_mutates_counterexample:
  "plan_best_grasp_heap (\<lambda>_. [example_back_grasp, example_front_grasp]) example_policy =
     Inr ([example_back_grasp
             \<lparr>pose := (pose example_back_grasp)\<lparr>rotation := Rotation ((- cos np_pi, sin np_pi, 0), (- sin np_pi, - cos np_pi, 0), (0, 0, 1))\<rparr>\<rparr>,
           example_front_grasp],
          \<lparr>rotation = Rotation ((sin np_pi, cos np_pi, 0), (- cos np_pi, sin np_pi, 0), (0, 0, 1)),
           translation = (4 / 5, 21 / 10, 16 / 5)\<rparr>)
   \<and> [example_back_grasp
         \<lparr>pose := (pose example_back_grasp)\<lparr>rotation := Rotation ((- cos np_pi, sin np_pi, 0), (- sin np_pi, - cos np_pi, 0), (0, 0, 1))\<rparr>\<rparr>,
       example_front_grasp] \<noteq> [example_back_grasp, example_front_grasp]"
proof -
  have "plan_best_grasp_heap (\<lambda>_. [example_back_grasp, example_front_grasp]) example_policy =
          Inr (canonicalize example_back_grasp # [example_front_grasp],
               Transform_mul (Transform_mul (H_B_T example_policy) (pose (canonicalize example_back_grasp)))
                 (Transform_inv (H_EE_G example_policy)))"
    by (rule plan_best_grasp_heap_Cons) simp
  moreover have "Transform_mul (Transform_mul (H_B_T example_policy) (pose (canonicalize example_back_grasp)))
             (Transform_inv (H_EE_G example_policy)) =
           \<lparr>rotation = Rotation ((sin np_pi, cos np_pi, 0), (- cos np_pi, sin np_pi, 0), (0, 0, 1)),
            translation = (4 / 5, 21 / 10, 16 / 5)\<rparr>"
    by (simp add: canonicalize_example_back_grasp)
       (simp add: example_policy_def example_back_grasp_def Transform_mul_def Transform_inv_def
          Rotation_mul_def Rotation_inv_def Rotation_apply_def mat_transpose_def Let_def)
  moreover have "example_back_grasp
         \<lparr>pose := (pose example_back_grasp)\<lparr>rotation := Rotation ((- cos np_pi, sin np_pi, 0), (- sin np_pi, - cos np_pi, 0), (0, 0, 1))\<rparr>\<rparr>
       \<noteq> example_back_grasp"
    using sin_np_pi(3) by (simp add: example_back_grasp_def)
  ultimately show ?thesis
    by (simp add: canonicalize_example_back_grasp)
qed

section \<open>The factory\<close>

lemma SingleViewBaseline_init_example:
  "SingleViewBaseline_init example_environment = Inr example_policy"
  by (simp add: SingleViewBaseline_init_def Policy_init_def example_environment_def)
     (simp add: example_policy_def)

lemma FixedTrajectoryBaseline_init_example:
  "FixedTrajectoryBaseline_init example_environment = Inr example_fixed_trajectory"
  using SingleViewBaseline_init_example
  by (simp add: FixedTrajectoryBaseline_init_def SingleViewBaseline_init_def
      example_fixed_trajectory_def)

text \<open>
  Claim C10. \<^verbatim>\<open>get_policy\<close> returns the single-view object that the constructor
  builds for the name \<^verbatim>\<open>single-view\<close>, the fixed-trajectory object for the name
  \<^verbatim>\<open>fixed-trajectory\<close>, and for every other string it raises \<^verbatim>\<open>ValueError\<close> with
  the message that the policy does not exist. No other name yields either object.
\<close>

theorem get_policy_dispatch:
  "(SingleViewBaseline_init env = Inr sv \<longrightarrow>
      get_policy env ''single-view'' = Inr (SingleView sv))
   \<and> (FixedTrajectoryBaseline_init env = Inr ft \<longrightarrow>
      get_policy env ''fixed-trajectory'' = Inr (FixedTrajectory ft))
   \<and> (name \<noteq> ''single-view'' \<and> name \<noteq> ''fixed-trajectory'' \<longrightarrow>
      get_policy env name = Inl (ValueError (name @ '' policy does not exist.'')))
   \<and> (get_policy env name = Inr (SingleView sv) \<longrightarrow> name = ''single-view'')
   \<and> (get_policy env name = Inr (FixedTrajectory ft) \<longrightarrow> name = ''fixed-trajectory'')"
  by (cases "SingleViewBaseline_init env"; cases "FixedTrajectoryBaseline_init env")
     (auto simp: get_policy_def)

theorem get_policy_dispatch_witness:
  "get_policy example_environment ''single-view'' = Inr (SingleView example_policy)
   \<and> get_policy example_environment ''fixed-trajectory'' = Inr (FixedTrajectory example_fixed_trajectory)
   \<and> get_policy example_environment ''Single-View'' =
       Inl (ValueError ''Single-View policy does not exist.'')
   \<and> get_policy example_environment [] = Inl (ValueError '' policy does not exist.'')"
proof -
  note init = SingleViewBaseline_init_example FixedTrajectoryBaseline_init_example
  have 1: "get_policy example_environment ''single-view'' = Inr (SingleView example_policy)"
    using get_policy_dispatch
            [of example_environment example_policy example_fixed_trajectory "''single-view''"] init
    by blast
  have 2: "get_policy example_environment ''fixed-trajectory'' =
             Inr (FixedTrajectory example_fixed_trajectory)"
    using get_policy_dispatch
            [of example_environment example_policy example_fixed_trajectory "''fixed-trajectory''"] init
    by blast
  have 3: "get_policy example_environment ''Single-View'' =
             Inl (ValueError (''Single-View'' @ '' policy does not exist.''))"
    using get_policy_dispatch
            [of example_environment example_policy example_fixed_trajectory "''Single-View''"]
    by simp
  have 4: "get_policy example_environment [] = Inl (ValueError ([] @ '' policy does not exist.''))"
    using get_policy_dispatch
            [of example_environment example_policy example_fixed_trajectory "[]"]
    by simp
  from 1 2 3 4 show ?thesis by simp
qed

section \<open>Updates without a sensor sample\<close>

lemma integrate_sample_no_image:
  "last_depth_img self = None \<Longrightarrow> integrate_sample self = Inl (AttributeError ''last_depth_img'')"
  by (simp add: integrate_sample_def)

lemma integrate_sample_Inr:
  "integrate_sample self = Inr self1 \<Longrightarrow>
     \<exists>img extrinsic. last_depth_img self = Some img \<and> last_extrinsic self = Some extrinsic
       \<and> self1 = self\<lparr>tsdf := tsdf self @ [(img, intrinsic self, extrinsic)]\<rparr>"
  by (auto simp: integrate_sample_def split: option.splits)

lemma integrate_sample_sample:
  "last_depth_img self = Some img \<Longrightarrow> last_extrinsic self = Some extrinsic \<Longrightarrow>
     integrate_sample self = Inr (self\<lparr>tsdf := tsdf self @ [(img, intrinsic self, extrinsic)]\<rparr>)"
  by (simp add: integrate_sample_def)

lemma SingleViewBaseline_update_no_image:
  "last_depth_img self = None \<Longrightarrow>
     SingleViewBaseline_update detect self = (Some (AttributeError ''last_depth_img''), self)"
  by (simp add: SingleViewBaseline_update_def integrate_sample_no_image)

lemma FixedTrajectoryBaseline_update_no_image:
  "last_depth_img self = None \<Longrightarrow> tic self = Some t0 \<Longrightarrow>
     FixedTrajectoryBaseline_update detect now self = (Some (AttributeError ''last_depth_img''), self)"
  by (simp add: FixedTrajectoryBaseline_update_def integrate_sample_no_image)

lemma FixedTrajectoryBaseline_update_no_tic:
  "tic self = None \<Longrightarrow>
     FixedTrajectoryBaseline_update detect now self = (Some (AttributeError ''tic''), self)"
  by (simp add: FixedTrajectoryBaseline_update_def)

lemma SingleViewBaseline_call_no_image:
  "\<not> is_SensorCb c \<Longrightarrow> last_depth_img self = None \<Longrightarrow>
     last_depth_img (SingleViewBaseline_call c self) = None"
  by (cases c) (simp_all add: SingleViewBaseline_start_def SingleViewBaseline_update_no_image)

lemma FixedTrajectoryBaseline_call_no_image:
  "\<not> is_SensorCb c \<Longrightarrow> last_depth_img self = None \<Longrightarrow>
     last_depth_img (FixedTrajectoryBaseline_call c self) = None"
proof (cases c)
  case (Update detect now)
  assume "last_depth_img self = None"
  then show ?thesis
    using Update
    by (cases "tic self")
       (simp_all add: FixedTrajectoryBaseline_update_no_tic FixedTrajectoryBaseline_update_no_image)
qed (auto simp: FixedTrajectoryBaseline_start_def Let_def split: sum.splits)

lemma SingleViewBaseline_calls_no_image:
  "\<forall>c\<in>set calls. \<not> is_SensorCb c \<Longrightarrow> last_depth_img self = None \<Longrightarrow>
     last_depth_img (fold SingleViewBaseline_call calls self) = None"
  by (induction calls arbitrary: self) (simp_all add: SingleViewBaseline_call_no_image)

lemma FixedTrajectoryBaseline_calls_no_image:
  "\<forall>c\<in>set calls. \<not> is_SensorCb c \<Longrightarrow> last_depth_img self = None \<Longrightarrow>
     last_depth_img (fold FixedTrajectoryBaseline_call calls self) = None"
  by (induction calls arbitrary: self) (simp_all add: FixedTrajectoryBaseline_call_no_image)

lemma Policy_init_no_image: "Policy_init env = Inr self \<Longrightarrow> last_depth_img self = None"
  by (auto simp: Policy_init_def split: sum.splits)

lemma FixedTrajectoryBaseline_init_no_image:
  "FixedTrajectoryBaseline_init env = Inr self \<Longrightarrow> last_depth_img self = None"
  by (auto simp: FixedTrajectoryBaseline_init_def Policy_init_def Let_def Policy.extend_def
      split: sum.splits)

lemma example_policy_no_image: "last_depth_img example_policy = None"
  by (simp add: example_policy_def)

lemma example_fixed_trajectory_no_image: "last_depth_img example_fixed_trajectory = None"
  by (simp add: example_fixed_trajectory_def Policy.extend_def example_policy_def)

text \<open>
  Claim C5, as the code has it. If no sensor sample has ever been ingested, an
  \<^verbatim>\<open>update()\<close> call of either strategy that reaches the integration statement fails
  with Python's \<^verbatim>\<open>AttributeError\<close> for the attribute \<^verbatim>\<open>last_depth_img\<close>, which was
  never assigned, and leaves the object as it was: nothing is integrated or planned and
  no stale or default data stands in for the sample. An object that the constructor
  built and that received no sensor callback has no sample, whatever \<^verbatim>\<open>start()\<close> and
  \<^verbatim>\<open>update()\<close> calls it has seen.
\<close>

theorem update_without_sample:
  "(last_depth_img sv = None \<longrightarrow>
      SingleViewBaseline_update detect sv = (Some (AttributeError ''last_depth_img''), sv))
   \<and> (last_depth_img ft = None \<and> tic ft = Some t0 \<longrightarrow>
      FixedTrajectoryBaseline_update detect now ft = (Some (AttributeError ''last_depth_img''), ft))
   \<and> (SingleViewBaseline_init env = Inr sv0 \<and> (\<forall>c\<in>set calls. \<not> is_SensorCb c) \<longrightarrow>
      last_depth_img (fold SingleViewBaseline_call calls sv0) = None)
   \<and> (FixedTrajectoryBaseline_init env = Inr ft0 \<and> (\<forall>c\<in>set calls. \<not> is_SensorCb c) \<longrightarrow>
      last_depth_img (fold FixedTrajectoryBaseline_call calls ft0) = None)"
  by (auto simp: SingleViewBaseline_update_no_image FixedTrajectoryBaseline_update_no_image
      SingleViewBaseline_init_def
      intro!: SingleViewBaseline_calls_no_image FixedTrajectoryBaseline_calls_no_image
      dest: Policy_init_no_image FixedTrajectoryBaseline_init_no_image)

theorem update_without_sample_witness:
  "SingleViewBaseline_update (\<lambda>_. [example_front_grasp]) (snd (SingleViewBaseline_start example_policy)) =
     (Some (AttributeError ''last_depth_img''), snd (SingleViewBaseline_start example_policy))
   \<and> FixedTrajectoryBaseline_update (\<lambda>_. [example_front_grasp]) 1
       (snd (FixedTrajectoryBaseline_start 0 (Inr example_x0) example_fixed_trajectory)) =
     (Some (AttributeError ''last_depth_img''),
      snd (FixedTrajectoryBaseline_start 0 (Inr example_x0) example_fixed_trajectory))
   \<and> last_depth_img
       (fold SingleViewBaseline_call
          [Start 0 (Inr example_x0), Update (\<lambda>_. [example_front_grasp]) 1] example_policy) = None
   \<and> last_depth_img
       (fold FixedTrajectoryBaseline_call
          [Start 0 (Inr example_x0), Update (\<lambda>_. [example_front_grasp]) 1]
          example_fixed_trajectory) = None"
proof -
  let ?sv = "snd (SingleViewBaseline_start example_policy)"
  let ?ft = "snd (FixedTrajectoryBaseline_start 0 (Inr example_x0) example_fixed_trajectory)"
  let ?calls = "[Start 0 (Inr example_x0), Update (\<lambda>_. [example_front_grasp]) 1]"
  have sv: "last_depth_img ?sv = None"
    by (simp add: SingleViewBaseline_start_def example_policy_no_image)
  have ft: "last_depth_img ?ft = None \<and> tic ?ft = Some 0"
    by (simp add: FixedTrajectoryBaseline_start_def Let_def example_fixed_trajectory_no_image)
  have calls: "\<forall>c\<in>set ?calls. \<not> is_SensorCb c"
    by simp
  from update_without_sample
         [of ?sv "\<lambda>_. [example_front_grasp]" ?ft 0 1 example_environment example_policy ?calls
             example_fixed_trajectory]
       sv ft calls SingleViewBaseline_init_example FixedTrajectoryBaseline_init_example
  show ?thesis by blast
qed

text \<open>
  The claim as stated fails on a freshly constructed and started policy: the failure is
  an \<^verbatim>\<open>AttributeError\<close>, not \<^verbatim>\<open>SensorUnavailable\<close>.
\<close>

theorem update_without_sample_counterexample:
  "fst (SingleViewBaseline_update (\<lambda>_. [example_front_grasp])
          (snd (SingleViewBaseline_start example_policy))) =
     Some (AttributeError ''last_depth_img'')
   \<and> fst (SingleViewBaseline_update (\<lambda>_. [example_front_grasp])
          (snd (SingleViewBaseline_start example_policy))) \<noteq> Some SensorUnavailable"
  by (simp add: SingleViewBaseline_update_no_image SingleViewBaseline_start_def
      example_policy_no_image)

section \<open>The episode state\<close>

lemma integrate_sample_done_flag:
  "integrate_sample self = Inr self1 \<Longrightarrow> done_flag self1 = done_flag self"
  by (auto dest: integrate_sample_Inr)

lemma sensor_cb_done_flag: "done_flag (snd (sensor_cb img lookup self)) = done_flag self"
  by (simp add: sensor_cb_def Let_def split: sum.splits)

lemma SingleViewBaseline_update_done_flag:
  "done_flag (snd (SingleViewBaseline_update detect self)) = done_flag self
   \<or> done_flag (snd (SingleViewBaseline_update detect self)) = Some True"
  by (auto simp: SingleViewBaseline_update_def split: sum.splits dest: integrate_sample_done_flag)

lemma FixedTrajectoryBaseline_update_done_flag:
  "done_flag (snd (FixedTrajectoryBaseline_update detect now self)) = done_flag self
   \<or> done_flag (snd (FixedTrajectoryBaseline_update detect now self)) = Some True"
  by (auto simp: FixedTrajectoryBaseline_update_def Let_def
      split: sum.splits option.splits dest: integrate_sample_done_flag)

lemma state_rank_Done: "state_rank s \<le> 2"
  by (cases s) simp_all

lemma episode_state_rank_step:
  "done_flag self' = done_flag self \<or> done_flag self' = Some True \<Longrightarrow>
     state_rank (episode_state self) \<le> state_rank (episode_state self')"
  by (auto simp: episode_state_def state_rank_Done split: option.splits)

lemma SingleViewBaseline_call_rank:
  "\<not> is_Start c \<Longrightarrow>
     state_rank (episode_state self) \<le> state_rank (episode_state (SingleViewBaseline_call c self))"
  by (cases c)
     (simp_all add: episode_state_rank_step sensor_cb_done_flag SingleViewBaseline_update_done_flag)

lemma FixedTrajectoryBaseline_call_rank:
  "\<not> is_Start c \<Longrightarrow>
     state_rank (episode_state self) \<le> state_rank (episode_state (FixedTrajectoryBaseline_call c self))"
  by (cases c)
     (simp_all add: episode_state_rank_step sensor_cb_done_flag FixedTrajectoryBaseline_update_done_flag)

lemma SingleViewBaseline_calls_rank:
  "\<forall>c\<in>set calls. \<not> is_Start c \<Longrightarrow>
     state_rank (episode_state self) \<le> state_rank (episode_state (fold SingleViewBaseline_call calls self))"
proof (induction calls arbitrary: self)
  case Nil
  then show ?case by simp
next
  case (Cons c calls)
  have "state_rank (episode_state self) \<le> state_rank (episode_state (SingleViewBaseline_call c self))"
    using Cons.prems by (simp add: SingleViewBaseline_call_rank)
  also have "\<dots> \<le> state_rank (episode_state (fold SingleViewBaseline_call calls (SingleViewBaseline_call c self)))"
    using Cons.prems by (intro Cons.IH) simp
  finally show ?case by simp
qed

lemma FixedTrajectoryBaseline_calls_rank:
  "\<forall>c\<in>set calls. \<not> is_Start c \<Longrightarrow>
     state_rank (episode_state self) \<le>
       state_rank (episode_state (fold FixedTrajectoryBaseline_call calls self))"
proof (induction calls arbitrary: self)
  case Nil
  then show ?case by simp
next
  case (Cons c calls)
  have "state_rank (episode_state self) \<le>
          state_rank (episode_state (FixedTrajectoryBaseline_call c self))"
    using Cons.prems by (simp add: FixedTrajectoryBaseline_call_rank)
  also have "\<dots> \<le> state_rank (episode_state
          (fold FixedTrajectoryBaseline_call calls (FixedTrajectoryBaseline_call c self)))"
    using Cons.prems by (intro Cons.IH) simp
  finally show ?case by simp
qed

lemma rank_Done_iff: "2 \<le> state_rank s \<longleftrightarrow> s = Done"
  by (cases s) simp_all

lemma episode_state_Done_iff: "episode_state self = Done \<longleftrightarrow> done_flag self = Some True"
  by (simp add: episode_state_def split: option.splits)

lemma example_detect_Cons: "example_detect tsdf0 = example_back_grasp # [example_front_grasp]"
  by (simp add: example_detect_def)

lemmas plan_best_grasp_example = plan_best_grasp_Cons [OF example_detect_Cons]

lemma example_fixed_trajectory_fields:
  "duration example_fixed_trajectory = 4"
  "radius example_fixed_trajectory = 1 / 10"
  "m example_fixed_trajectory = interp1d (0, 4) (pi, 3 * pi)"
  "tic example_fixed_trajectory = None"
  "done_flag example_fixed_trajectory = None"
  "published example_fixed_trajectory = []"
  "best_grasp example_fixed_trajectory = None"
  by (simp_all add: example_fixed_trajectory_def Policy.extend_def FixedTrajectoryBaseline.fields_def
      example_policy_def)

lemma SingleViewBaseline_example_episode:
  "done_flag (fold SingleViewBaseline_call example_episode example_policy) = Some True"
  by (simp add: example_episode_def sensor_cb_def SingleViewBaseline_start_def
      SingleViewBaseline_update_def integrate_sample_def Let_def plan_best_grasp_example)

lemma FixedTrajectoryBaseline_example_episode:
  "done_flag (fold FixedTrajectoryBaseline_call example_episode example_fixed_trajectory) = Some True"
proof -
  let ?ft = "snd (FixedTrajectoryBaseline_start 0 (Inr example_x0)
            (snd (sensor_cb example_image (Inr example_extrinsic) example_fixed_trajectory)))"
  have 1: "tic ?ft = Some 0" "last_depth_img ?ft = Some example_image"
    "last_extrinsic ?ft = Some example_extrinsic" "duration ?ft = 4"
    by (simp_all add: FixedTrajectoryBaseline_start_def sensor_cb_def Let_def
        example_fixed_trajectory_fields)
  have "done_flag (snd (FixedTrajectoryBaseline_update example_detect 5 ?ft)) = Some True"
    by (simp add: FixedTrajectoryBaseline_update_def 1 integrate_sample_def Let_def
        plan_best_grasp_example)
  then show ?thesis
    by (simp add: example_episode_def)
qed

text \<open>
  Claim C8, as the code has it. For either strategy, over every sequence of
  \<^verbatim>\<open>update()\<close> calls and sensor callbacks the episode state never moves down in the
  order not started, running, done; in particular no \<^verbatim>\<open>update()\<close> call resets the
  done flag from true. A \<^verbatim>\<open>start()\<close> call that completes sets the state to running
  from any state, done included; a fixed-trajectory \<^verbatim>\<open>start()\<close> whose frame lookup
  fails leaves the state as it was.
\<close>

theorem episode_state_monotonic:
  "((\<forall>c\<in>set calls. \<not> is_Start c) \<longrightarrow>
       state_rank (episode_state sv) \<le> state_rank (episode_state (fold SingleViewBaseline_call calls sv))
     \<and> state_rank (episode_state ft) \<le>
         state_rank (episode_state (fold FixedTrajectoryBaseline_call calls ft))
     \<and> (done_flag sv = Some True \<longrightarrow>
          done_flag (fold SingleViewBaseline_call calls sv) = Some True)
     \<and> (done_flag ft = Some True \<longrightarrow>
          done_flag (fold FixedTrajectoryBaseline_call calls ft) = Some True))
   \<and> episode_state (snd (SingleViewBaseline_start sv)) = Running
   \<and> episode_state (snd (FixedTrajectoryBaseline_start now (Inr x0) ft)) = Running
   \<and> episode_state (snd (FixedTrajectoryBaseline_start now (Inl e) ft)) = episode_state ft"
proof -
  have "done_flag (fold SingleViewBaseline_call calls sv) = Some True"
    if "\<forall>c\<in>set calls. \<not> is_Start c" "done_flag sv = Some True"
    using SingleViewBaseline_calls_rank [OF that(1), of sv] that(2)
    by (simp add: episode_state_Done_iff [symmetric] rank_Done_iff)
  moreover have "done_flag (fold FixedTrajectoryBaseline_call calls ft) = Some True"
    if "\<forall>c\<in>set calls. \<not> is_Start c" "done_flag ft = Some True"
    using FixedTrajectoryBaseline_calls_rank [OF that(1), of ft] that(2)
    by (simp add: episode_state_Done_iff [symmetric] rank_Done_iff)
  moreover have "episode_state (snd (SingleViewBaseline_start sv)) = Running"
    by (simp add: SingleViewBaseline_start_def episode_state_def)
  moreover have "episode_state (snd (FixedTrajectoryBaseline_start now (Inr x0) ft)) = Running"
    by (simp add: FixedTrajectoryBaseline_start_def Let_def episode_state_def)
  moreover have "episode_state (snd (FixedTrajectoryBaseline_start now (Inl e) ft)) = episode_state ft"
    by (simp add: FixedTrajectoryBaseline_start_def Let_def episode_state_def)
  ultimately show ?thesis
    by (simp add: SingleViewBaseline_calls_rank FixedTrajectoryBaseline_calls_rank)
qed

theorem episode_state_monotonic_witness:
  "done_flag
     (fold SingleViewBaseline_call
        [Update example_detect 7, SensorCb example_image (Inl LookupException), Update (\<lambda>_. []) 8]
        (fold SingleViewBaseline_call example_episode example_policy)) = Some True
   \<and> done_flag
     (fold FixedTrajectoryBaseline_call
        [Update example_detect 7, SensorCb example_image (Inl LookupException), Update (\<lambda>_. []) 8]
        (fold FixedTrajectoryBaseline_call example_episode example_fixed_trajectory)) = Some True
   \<and> episode_state
       (snd (SingleViewBaseline_start (fold SingleViewBaseline_call example_episode example_policy))) =
     Running"
proof -
  let ?calls = "[Update example_detect 7, SensorCb example_image (Inl LookupException),
                 Update (\<lambda>_. []) 8]"
  have "\<forall>c\<in>set ?calls. \<not> is_Start c"
    by simp
  with episode_state_monotonic
         [of ?calls "fold SingleViewBaseline_call example_episode example_policy"
             "fold FixedTrajectoryBaseline_call example_episode example_fixed_trajectory"]
       SingleViewBaseline_example_episode FixedTrajectoryBaseline_example_episode
  show ?thesis by blast
qed

text \<open>
  The claim as stated fails over sequences with a second \<^verbatim>\<open>start()\<close>: after an
  episode that ended in the state done, \<^verbatim>\<open>start()\<close> takes the state back to running.
\<close>

theorem episode_state_regresses_counterexample:
  "episode_state (fold SingleViewBaseline_call example_episode example_policy) = Done
   \<and> episode_state
       (fold SingleViewBaseline_call (example_episode @ [Start 6 (Inr example_x0)]) example_policy) =
     Running
   \<and> episode_state (fold FixedTrajectoryBaseline_call example_episode example_fixed_trajectory) = Done
   \<and> episode_state
       (fold FixedTrajectoryBaseline_call (example_episode @ [Start 6 (Inr example_x0)])
          example_fixed_trajectory) = Running"
  by (simp add: episode_state_Done_iff SingleViewBaseline_example_episode
      FixedTrajectoryBaseline_example_episode)
     (simp add: episode_state_def SingleViewBaseline_start_def FixedTrajectoryBaseline_start_def
        Let_def)

section \<open>The scanning motion\<close>

lemma interp1d_angle:
  "0 < D \<Longrightarrow> 0 \<le> t \<Longrightarrow> t \<le> D \<Longrightarrow>
     interp1d (0, D) (pi, 3 * pi) t = Inr (pi + t / D * (2 * pi))"
  by (simp add: interp1d_def Let_def field_simps)

lemma interp1d_below:
  "t < 0 \<Longrightarrow> \<exists>msg. interp1d (0, D) y t = Inl (ValueError msg)"
  by (simp add: interp1d_def Let_def)

lemma cos_3pi: "cos (3 * pi) = - 1"
proof -
  have "cos (pi + 2 * pi) = cos pi" by (rule cos_periodic)
  then show ?thesis by simp
qed

lemma sin_3pi: "sin (3 * pi) = 0"
proof -
  have "sin (pi + 2 * pi) = sin pi" by (rule sin_periodic)
  then show ?thesis by simp
qed

lemma FixedTrajectoryBaseline_update_motion:
  assumes "tic self = Some t0"
    and "last_depth_img self = Some img" and "last_extrinsic self = Some extrinsic"
    and "origin self = Some org" and "target self = Some tgt"
    and "\<not> now - t0 > duration self" and "m self (now - t0) = Inr t"
  shows "FixedTrajectoryBaseline_update detect now self =
           (None,
            self\<lparr>tsdf := tsdf self @ [(img, intrinsic self, extrinsic)],
                 target := Some (tgt\<lparr>translation :=
                                  vec_add org (radius self * cos t, radius self * sin t, 0)\<rparr>),
                 published := published self @
                                [tgt\<lparr>translation :=
                                      vec_add org (radius self * cos t, radius self * sin t, 0)\<rparr>]\<rparr>)"
  using assms
  by (simp add: FixedTrajectoryBaseline_update_def integrate_sample_def Let_def)

lemma FixedTrajectoryBaseline_update_plan:
  assumes "tic self = Some t0"
    and "last_depth_img self = Some img" and "last_extrinsic self = Some extrinsic"
    and "now - t0 > duration self"
    and "detect (tsdf self @ [(img, intrinsic self, extrinsic)]) = grasp # rest"
  shows "FixedTrajectoryBaseline_update detect now self =
           (None,
            self\<lparr>tsdf := tsdf self @ [(img, intrinsic self, extrinsic)],
                 best_grasp := Some (Transform_mul (Transform_mul (H_B_T self) (pose (canonicalize grasp)))
                                       (Transform_inv (H_EE_G self))),
                 done_flag := Some True\<rparr>)"
  using assms
  by (simp add: FixedTrajectoryBaseline_update_def integrate_sample_def Let_def
      plan_best_grasp_Cons)

lemma FixedTrajectoryBaseline_update_scanning:
  "tic self = Some t0 \<Longrightarrow> now - t0 \<le> duration self \<Longrightarrow>
     done_flag (snd (FixedTrajectoryBaseline_update detect now self)) = done_flag self
     \<and> best_grasp (snd (FixedTrajectoryBaseline_update detect now self)) = best_grasp self"
  by (auto simp: FixedTrajectoryBaseline_update_def Let_def
      split: sum.splits option.splits dest!: integrate_sample_Inr)

lemma FixedTrajectoryBaseline_init_fields:
  assumes "FixedTrajectoryBaseline_init env = Inr ft0"
  shows "duration ft0 = 4" "radius ft0 = 1 / 10" "m ft0 = interp1d (0, 4) (pi, 3 * pi)"
    "tic ft0 = None" "origin ft0 = None" "target ft0 = None" "done_flag ft0 = None"
    "published ft0 = []" "best_grasp ft0 = None" "tsdf ft0 = []"
  using assms
  by (auto simp: FixedTrajectoryBaseline_init_def Policy_init_def Let_def Policy.extend_def
      FixedTrajectoryBaseline.fields_def split: sum.splits)

lemma sensor_cb_Inr:
  "snd (sensor_cb img (Inr extrinsic) self) =
     self\<lparr>last_depth_img := Some img, last_extrinsic := Some extrinsic\<rparr>"
  by (simp add: sensor_cb_def Let_def)

lemma FixedTrajectoryBaseline_start_Inr:
  "translation x0 = (x, y, z) \<Longrightarrow>
     snd (FixedTrajectoryBaseline_start t0 (Inr x0) self) =
       self\<lparr>tic := Some t0, origin := Some (x + radius self, y, z), target := Some x0,
            done_flag := Some False\<rparr>"
  by (simp add: FixedTrajectoryBaseline_start_def Let_def)

lemma circle_point:
  fixes r :: real
  shows "(ox + r * cos a - ox)\<^sup>2 + (r * sin a)\<^sup>2 = r\<^sup>2"
proof -
  have "r\<^sup>2 * (cos a)\<^sup>2 + r\<^sup>2 * (sin a)\<^sup>2 = r\<^sup>2 * ((cos a)\<^sup>2 + (sin a)\<^sup>2)"
    by (simp only: distrib_left)
  also have "\<dots> = r\<^sup>2"
    by simp
  finally show ?thesis
    by (simp add: power_mult_distrib)
qed

lemma example_x0_translation: "translation example_x0 = (1 / 2, 0, 3 / 10)"
  by (simp add: example_x0_def)

lemma example_started_eq:
  "example_started =
     example_fixed_trajectory
       \<lparr>last_depth_img := Some example_image, last_extrinsic := Some example_extrinsic,
        tic := Some 0, origin := Some (3 / 5, 0, 3 / 10), target := Some example_x0,
        done_flag := Some False\<rparr>"
  unfolding example_started_def sensor_cb_Inr
  by (simp add: FixedTrajectoryBaseline_start_Inr [OF example_x0_translation]
      example_fixed_trajectory_fields)

lemma example_started_fields:
  "tic example_started = Some 0"
  "last_depth_img example_started = Some example_image"
  "last_extrinsic example_started = Some example_extrinsic"
  "origin example_started = Some (3 / 5, 0, 3 / 10)"
  "target example_started = Some example_x0"
  "duration example_started = 4"
  "radius example_started = 1 / 10"
  "m example_started = interp1d (0, 4) (pi, 3 * pi)"
  "published example_started = []"
  "done_flag example_started = Some False"
  "best_grasp example_started = None"
  by (simp_all add: example_started_eq example_fixed_trajectory_fields)

text \<open>
  While an object scans, every call other than \<^verbatim>\<open>start()\<close> keeps it scanning, and
  publishes nothing or one pose: the start pose moved to the point of the circle at the
  angle of the elapsed time.
\<close>

lemma scanning_state_sensor_cb:
  "scanning_state t0 org x0 self \<Longrightarrow> scanning_state t0 org x0 (snd (sensor_cb img lookup self))"
  by (auto simp: scanning_state_def sensor_cb_def Let_def split: sum.splits)

lemma same_rotation:
  "rotation tgt = rotation x0 \<Longrightarrow> tgt\<lparr>translation := v\<rparr> = x0\<lparr>translation := v\<rparr>"
  for tgt x0 :: Transform
  by (rule Transform.equality) simp_all

lemma scanning_state_update_motion:
  assumes "scanning_state t0 org x0 self" and "0 \<le> t" and "t \<le> 4"
  shows "fst (FixedTrajectoryBaseline_update detect (t0 + t) self) = None"
    and "published (snd (FixedTrajectoryBaseline_update detect (t0 + t) self)) =
           published self @
             [x0\<lparr>translation :=
                  vec_add org (1 / 10 * cos (pi + t / 4 * (2 * pi)),
                               1 / 10 * sin (pi + t / 4 * (2 * pi)), 0)\<rparr>]"
    and "scanning_state t0 org x0 (snd (FixedTrajectoryBaseline_update detect (t0 + t) self))"
proof -
  from assms(1) obtain img extrinsic tgt where f:
    "tic self = Some t0" "last_depth_img self = Some img" "last_extrinsic self = Some extrinsic"
    "origin self = Some org" "target self = Some tgt"
    and g: "duration self = 4" "radius self = 1 / 10" "m self = interp1d (0, 4) (pi, 3 * pi)"
    and r: "rotation tgt = rotation x0"
    by (auto simp: scanning_state_def)
  have "\<not> t0 + t - t0 > duration self" "m self (t0 + t - t0) = Inr (pi + t / 4 * (2 * pi))"
    using assms(2,3) by (simp_all add: g interp1d_angle)
  note upd = FixedTrajectoryBaseline_update_motion [OF f this, of detect]
  show "fst (FixedTrajectoryBaseline_update detect (t0 + t) self) = None"
    by (simp add: upd)
  show "published (snd (FixedTrajectoryBaseline_update detect (t0 + t) self)) =
           published self @
             [x0\<lparr>translation :=
                  vec_add org (1 / 10 * cos (pi + t / 4 * (2 * pi)),
                               1 / 10 * sin (pi + t / 4 * (2 * pi)), 0)\<rparr>]"
    by (simp only: upd g snd_conv same_rotation [OF r]) simp
  show "scanning_state t0 org x0 (snd (FixedTrajectoryBaseline_update detect (t0 + t) self))"
    unfolding upd using f g r by (simp add: scanning_state_def)
qed

lemma scanning_state_update_other:
  assumes "scanning_state t0 org x0 self" and "now - t0 < 0 \<or> 4 < now - t0"
  shows "published (snd (FixedTrajectoryBaseline_update detect now self)) = published self"
    and "scanning_state t0 org x0 (snd (FixedTrajectoryBaseline_update detect now self))"
proof -
  from assms(1) obtain img extrinsic where f:
    "tic self = Some t0" "last_depth_img self = Some img" "last_extrinsic self = Some extrinsic"
    and g: "duration self = 4" "m self = interp1d (0, 4) (pi, 3 * pi)"
    by (auto simp: scanning_state_def)
  let ?self1 = "self\<lparr>tsdf := tsdf self @ [(img, intrinsic self, extrinsic)]\<rparr>"
  have s1: "scanning_state t0 org x0 ?self1"
    using assms(1) by (auto simp: scanning_state_def)
  have i: "integrate_sample self = Inr ?self1"
    by (simp add: integrate_sample_def f)
  show "published (snd (FixedTrajectoryBaseline_update detect now self)) = published self"
    using assms(2)
    by (auto simp: FixedTrajectoryBaseline_update_def f g i Let_def interp1d_def
        split: sum.splits)
  show "scanning_state t0 org x0 (snd (FixedTrajectoryBaseline_update detect now self))"
    using assms(2) s1
    by (auto simp: FixedTrajectoryBaseline_update_def f g i Let_def interp1d_def
        scanning_state_def split: sum.splits)
qed

lemma scanning_state_call:
  assumes "scanning_state t0 org x0 self" and "\<not> is_Start c"
  shows "scanning_state t0 org x0 (FixedTrajectoryBaseline_call c self)"
    and "published (FixedTrajectoryBaseline_call c self) = published self
         \<or> (\<exists>t. 0 \<le> t \<and> t \<le> 4
              \<and> published (FixedTrajectoryBaseline_call c self) =
                  published self @
                    [x0\<lparr>translation :=
                         vec_add org (1 / 10 * cos (pi + t / 4 * (2 * pi)),
                                      1 / 10 * sin (pi + t / 4 * (2 * pi)), 0)\<rparr>])"
proof -
  have "scanning_state t0 org x0 (FixedTrajectoryBaseline_call c self)
    \<and> (published (FixedTrajectoryBaseline_call c self) = published self
         \<or> (\<exists>t. 0 \<le> t \<and> t \<le> 4
              \<and> published (FixedTrajectoryBaseline_call c self) =
                  published self @
                    [x0\<lparr>translation :=
                         vec_add org (1 / 10 * cos (pi + t / 4 * (2 * pi)),
                                      1 / 10 * sin (pi + t / 4 * (2 * pi)), 0)\<rparr>]))"
  proof (cases c)
    case (SensorCb img lookup)
    then show ?thesis
      using scanning_state_sensor_cb [OF assms(1), of img lookup]
      by (simp add: sensor_cb_def Let_def split: sum.splits)
  next
    case (Start now lookup)
    with assms(2) show ?thesis by simp
  next
    case (Update detect now)
    show ?thesis
    proof (cases "0 \<le> now - t0 \<and> now - t0 \<le> 4")
      case True
      then have t: "0 \<le> now - t0" "now - t0 \<le> 4"
        by simp_all
      have eq: "t0 + (now - t0) = now"
        by simp
      note upd = scanning_state_update_motion [OF assms(1) t, of detect, unfolded eq]
      from t upd(2)
      have "\<exists>t. 0 \<le> t \<and> t \<le> 4
              \<and> published (snd (FixedTrajectoryBaseline_update detect now self)) =
                  published self @
                    [x0\<lparr>translation :=
                         vec_add org (1 / 10 * cos (pi + t / 4 * (2 * pi)),
                                      1 / 10 * sin (pi + t / 4 * (2 * pi)), 0)\<rparr>]"
        by blast
      with upd(3) show ?thesis
        unfolding Update FixedTrajectoryBaseline_call.simps by blast
    next
      case False
      then have "now - t0 < 0 \<or> 4 < now - t0"
        by auto
      from scanning_state_update_other [OF assms(1) this, of detect]
      show ?thesis
        unfolding Update by simp
    qed
  qed
  then show "scanning_state t0 org x0 (FixedTrajectoryBaseline_call c self)"
    and "published (FixedTrajectoryBaseline_call c self) = published self
         \<or> (\<exists>t. 0 \<le> t \<and> t \<le> 4
              \<and> published (FixedTrajectoryBaseline_call c self) =
                  published self @
                    [x0\<lparr>translation :=
                         vec_add org (1 / 10 * cos (pi + t / 4 * (2 * pi)),
                                      1 / 10 * sin (pi + t / 4 * (2 * pi)), 0)\<rparr>])"
    by simp_all
qed

lemma scanning_state_calls:
  assumes "\<forall>c\<in>set calls. \<not> is_Start c" and "scanning_state t0 org x0 self"
  shows "scanning_state t0 org x0 (fold FixedTrajectoryBaseline_call calls self)"
    and "\<forall>p\<in>set (published (fold FixedTrajectoryBaseline_call calls self)).
           p \<in> set (published self)
           \<or> (\<exists>t. 0 \<le> t \<and> t \<le> 4
                \<and> p = x0\<lparr>translation :=
                          vec_add org (1 / 10 * cos (pi + t / 4 * (2 * pi)),
                                       1 / 10 * sin (pi + t / 4 * (2 * pi)), 0)\<rparr>)"
  using assms
proof (induction calls arbitrary: self)
  case Nil
  {
    case 1
    then show ?case by simp
  next
    case 2
    then show ?case by simp
  }
next
  case (Cons c calls)
  {
    case 1
    then show ?case
      using Cons.IH(1) [of "FixedTrajectoryBaseline_call c self"]
      by (simp add: scanning_state_call(1))
  next
    case 2
    then have c: "\<not> is_Start c" and rest: "\<forall>c\<in>set calls. \<not> is_Start c"
      by simp_all
    note step = scanning_state_call [OF 2(2) c]
    from Cons.IH(2) [OF rest step(1)] step(2)
    show ?case
      by (fastforce simp: )
  }
qed

text \<open>
  Claim C6. A fixed-trajectory object as the constructor builds it has scan duration
  \<open>4\<close> and radius \<open>0.1\<close>. After a sensor sample and a \<^verbatim>\<open>start()\<close> whose lookup
  returns a pose \<open>x0\<close> with translation \<open>(0.5, 0, 0.3)\<close>, the origin is
  \<open>(0.6, 0, 0.3)\<close> and nothing has been published. From then on, after any sequence of
  \<^verbatim>\<open>update()\<close> calls and sensor callbacks, at any clock readings and whatever they
  raised: an \<^verbatim>\<open>update()\<close> at elapsed time \<open>0\<close> computes the angle \<open>\<pi>\<close> and publishes
  \<open>x0\<close> with translation \<open>(0.5, 0, 0.3)\<close>, which is \<open>x0\<close> itself; at elapsed time \<open>2\<close>
  it computes the angle \<open>2\<pi>\<close> and publishes translation \<open>(0.7, 0, 0.3)\<close>; at every
  elapsed time \<open>t\<close> from \<open>0\<close> to \<open>4\<close> the angle is \<open>\<pi> + (t / 4) * 2\<pi>\<close> and the pose
  published is \<open>x0\<close> moved to the point at that angle of the circle of radius \<open>0.1\<close>
  about the origin, in the plane of constant height. Every pose published since the
  start is such a pose.
\<close>

theorem fixed_trajectory_circle:
  assumes init: "FixedTrajectoryBaseline_init env = Inr ft0"
    and sample: "ft1 = snd (sensor_cb img (Inr extrinsic) ft0)"
    and x0: "translation x0 = (1 / 2, 0, 3 / 10)"
    and start: "started = snd (FixedTrajectoryBaseline_start t0 (Inr x0) ft1)"
    and calls: "\<forall>c\<in>set calls. \<not> is_Start c"
    and scan: "scanning = fold FixedTrajectoryBaseline_call calls started"
  shows "duration scanning = 4 \<and> radius scanning = 1 / 10
       \<and> origin started = Some (3 / 5, 0, 3 / 10)
       \<and> origin scanning = Some (3 / 5, 0, 3 / 10)
       \<and> published started = []
       \<and> m scanning 0 = Inr pi
       \<and> published (snd (FixedTrajectoryBaseline_update detect (t0 + 0) scanning)) =
           published scanning @ [x0\<lparr>translation := (1 / 2, 0, 3 / 10)\<rparr>]
       \<and> x0\<lparr>translation := (1 / 2, 0, 3 / 10)\<rparr> = x0
       \<and> m scanning 2 = Inr (2 * pi)
       \<and> published (snd (FixedTrajectoryBaseline_update detect (t0 + 2) scanning)) =
           published scanning @ [x0\<lparr>translation := (7 / 10, 0, 3 / 10)\<rparr>]
       \<and> (\<forall>t. 0 \<le> t \<and> t \<le> 4 \<longrightarrow>
             m scanning t = Inr (pi + t / 4 * (2 * pi))
             \<and> fst (FixedTrajectoryBaseline_update detect (t0 + t) scanning) = None
             \<and> published (snd (FixedTrajectoryBaseline_update detect (t0 + t) scanning)) =
                 published scanning @
                   [x0\<lparr>translation :=
                         (3 / 5 + 1 / 10 * cos (pi + t / 4 * (2 * pi)),
                          1 / 10 * sin (pi + t / 4 * (2 * pi)),
                          3 / 10)\<rparr>]
             \<and> (3 / 5 + 1 / 10 * cos (pi + t / 4 * (2 * pi)) - 3 / 5)\<^sup>2
                 + (1 / 10 * sin (pi + t / 4 * (2 * pi)))\<^sup>2 = (1 / 10)\<^sup>2)
       \<and> (\<forall>p\<in>set (published scanning).
             \<exists>t. 0 \<le> t \<and> t \<le> 4
               \<and> p = x0\<lparr>translation :=
                         (3 / 5 + 1 / 10 * cos (pi + t / 4 * (2 * pi)),
                          1 / 10 * sin (pi + t / 4 * (2 * pi)),
                          3 / 10)\<rparr>)"
proof -
  note f = FixedTrajectoryBaseline_init_fields [OF init]
  let ?org = "(3 / 5, 0, 3 / 10) :: vec3"
  have started: "started =
      ft0\<lparr>last_depth_img := Some img, last_extrinsic := Some extrinsic, tic := Some t0,
          origin := Some ?org, target := Some x0, done_flag := Some False\<rparr>"
    unfolding start sample sensor_cb_Inr
    by (simp add: FixedTrajectoryBaseline_start_Inr [OF x0] f)
  have inv0: "scanning_state t0 ?org x0 started" and pub0: "published started = []"
    and org0: "origin started = Some ?org"
    by (simp_all add: started f scanning_state_def)
  have inv: "scanning_state t0 ?org x0 scanning"
    unfolding scan using calls inv0 by (rule scanning_state_calls(1))
  have pub: "\<forall>p\<in>set (published scanning).
           p \<in> set (published started)
           \<or> (\<exists>t. 0 \<le> t \<and> t \<le> 4
                \<and> p = x0\<lparr>translation :=
                          vec_add ?org (1 / 10 * cos (pi + t / 4 * (2 * pi)),
                                        1 / 10 * sin (pi + t / 4 * (2 * pi)), 0)\<rparr>)"
    unfolding scan using calls inv0 by (rule scanning_state_calls(2))
  have fields: "origin scanning = Some ?org" "duration scanning = 4" "radius scanning = 1 / 10"
    "m scanning = interp1d (0, 4) (pi, 3 * pi)"
    using inv by (simp_all add: scanning_state_def)
  have point: "vec_add ?org (1 / 10 * cos a, 1 / 10 * sin a, 0) =
      (3 / 5 + 1 / 10 * cos a, 1 / 10 * sin a, 3 / 10)" for a :: real
    by simp
  have angle: "m scanning t = Inr (pi + t / 4 * (2 * pi))" if "0 \<le> t" "t \<le> 4" for t
    using that by (simp add: fields interp1d_angle)
  have motion: "fst (FixedTrajectoryBaseline_update detect (t0 + t) scanning) = None
      \<and> published (snd (FixedTrajectoryBaseline_update detect (t0 + t) scanning)) =
          published scanning @
            [x0\<lparr>translation :=
                  (3 / 5 + 1 / 10 * cos (pi + t / 4 * (2 * pi)),
                   1 / 10 * sin (pi + t / 4 * (2 * pi)), 3 / 10)\<rparr>]"
    if "0 \<le> t" "t \<le> 4" for t
    using scanning_state_update_motion(1,2) [OF inv that, of detect]
    unfolding point by blast
  have on_circle: "\<forall>p\<in>set (published scanning).
             \<exists>t. 0 \<le> t \<and> t \<le> 4
               \<and> p = x0\<lparr>translation :=
                         (3 / 5 + 1 / 10 * cos (pi + t / 4 * (2 * pi)),
                          1 / 10 * sin (pi + t / 4 * (2 * pi)),
                          3 / 10)\<rparr>"
    using pub unfolding point pub0 by simp
  have same: "x0\<lparr>translation := (1 / 2, 0, 3 / 10)\<rparr> = x0"
    using x0 by (cases x0) simp
  have a0: "m scanning 0 = Inr pi" and a2: "m scanning 2 = Inr (2 * pi)"
    using angle [of 0] angle [of 2] by simp_all
  have p0: "published (snd (FixedTrajectoryBaseline_update detect (t0 + 0) scanning)) =
           published scanning @ [x0\<lparr>translation := (1 / 2, 0, 3 / 10)\<rparr>]"
    using motion [of 0] by simp
  have p2: "published (snd (FixedTrajectoryBaseline_update detect (t0 + 2) scanning)) =
           published scanning @ [x0\<lparr>translation := (7 / 10, 0, 3 / 10)\<rparr>]"
    using motion [of 2] by simp
  have circle: "(3 / 5 + 1 / 10 * cos (pi + t / 4 * (2 * pi)) - 3 / 5)\<^sup>2
                 + (1 / 10 * sin (pi + t / 4 * (2 * pi)))\<^sup>2 = (1 / 10 :: real)\<^sup>2" for t
    by (rule circle_point)
  from fields(1-3) org0 pub0 a0 p0 same a2 p2 angle motion circle on_circle
  show ?thesis
    by (intro conjI allI impI) blast+
qed

theorem fixed_trajectory_circle_witness:
  "origin example_started = Some (3 / 5, 0, 3 / 10)
   \<and> m example_started 0 = Inr pi
   \<and> published (snd (FixedTrajectoryBaseline_update example_detect 0 example_started)) =
       [example_x0]
   \<and> m example_started 2 = Inr (2 * pi)
   \<and> published (snd (FixedTrajectoryBaseline_update example_detect 2 example_started)) =
       [example_x0\<lparr>translation := (7 / 10, 0, 3 / 10)\<rparr>]
   \<and> m example_started 1 = Inr (3 / 2 * pi)
   \<and> published (fold FixedTrajectoryBaseline_call [Update example_detect 1] example_started) =
       [example_x0\<lparr>translation := (3 / 5, - 1 / 10, 3 / 10)\<rparr>]
   \<and> published
       (snd (FixedTrajectoryBaseline_update example_detect 2
               (fold FixedTrajectoryBaseline_call [Update example_detect 1] example_started))) =
       [example_x0\<lparr>translation := (3 / 5, - 1 / 10, 3 / 10)\<rparr>,
        example_x0\<lparr>translation := (7 / 10, 0, 3 / 10)\<rparr>]"
proof -
  let ?later = "fold FixedTrajectoryBaseline_call [Update example_detect 1] example_started"
  have quarter: "pi + 1 / 4 * (2 * pi) = 3 / 2 * pi"
    by simp
  have started: "example_started =
          snd (FixedTrajectoryBaseline_start 0 (Inr example_x0)
                 (snd (sensor_cb example_image (Inr example_extrinsic) example_fixed_trajectory)))"
    by (simp add: example_started_def)
  have none: "\<forall>c\<in>set ([] :: call list). \<not> is_Start c"
    and one: "\<forall>c\<in>set [Update example_detect 1]. \<not> is_Start c"
    by simp_all
  have "example_started = fold FixedTrajectoryBaseline_call [] example_started"
    by simp
  from fixed_trajectory_circle
         [OF FixedTrajectoryBaseline_init_example refl example_x0_translation started none this,
          of example_detect]
  have 1: "origin example_started = Some (3 / 5, 0, 3 / 10)"
    and 0: "published example_started = []"
    and 2: "m example_started 0 = Inr pi"
    and 3: "published (snd (FixedTrajectoryBaseline_update example_detect (0 + 0) example_started)) =
              published example_started @ [example_x0\<lparr>translation := (1 / 2, 0, 3 / 10)\<rparr>]"
    and 4: "example_x0\<lparr>translation := (1 / 2, 0, 3 / 10)\<rparr> = example_x0"
    and 5: "m example_started 2 = Inr (2 * pi)"
    and 6: "published (snd (FixedTrajectoryBaseline_update example_detect (0 + 2) example_started)) =
              published example_started @ [example_x0\<lparr>translation := (7 / 10, 0, 3 / 10)\<rparr>]"
    and 7: "\<forall>t. 0 \<le> t \<and> t \<le> 4 \<longrightarrow>
             m example_started t = Inr (pi + t / 4 * (2 * pi))
             \<and> fst (FixedTrajectoryBaseline_update example_detect (0 + t) example_started) = None
             \<and> published (snd (FixedTrajectoryBaseline_update example_detect (0 + t) example_started)) =
                 published example_started @
                   [example_x0\<lparr>translation :=
                         (3 / 5 + 1 / 10 * cos (pi + t / 4 * (2 * pi)),
                          1 / 10 * sin (pi + t / 4 * (2 * pi)),
                          3 / 10)\<rparr>]
             \<and> (3 / 5 + 1 / 10 * cos (pi + t / 4 * (2 * pi)) - 3 / 5)\<^sup>2
                 + (1 / 10 * sin (pi + t / 4 * (2 * pi)))\<^sup>2 = (1 / 10)\<^sup>2"
    by blast+
  have "0 \<le> (1::real) \<and> (1::real) \<le> 4"
    by simp
  from 7 [rule_format, OF this]
  have 8: "m example_started 1 = Inr (pi + 1 / 4 * (2 * pi))"
    and 9: "published (snd (FixedTrajectoryBaseline_update example_detect (0 + 1) example_started)) =
                 published example_started @
                 [example_x0\<lparr>translation :=
                       (3 / 5 + 1 / 10 * cos (pi + 1 / 4 * (2 * pi)),
                        1 / 10 * sin (pi + 1 / 4 * (2 * pi)),
                        3 / 10)\<rparr>]"
    by blast+
  from 3 4 0 have 3: "published (snd (FixedTrajectoryBaseline_update example_detect 0 example_started)) =
       [example_x0]"
    by simp
  from 6 0 have 6: "published (snd (FixedTrajectoryBaseline_update example_detect 2 example_started)) =
       [example_x0\<lparr>translation := (7 / 10, 0, 3 / 10)\<rparr>]"
    by simp
  from 8 have 8: "m example_started 1 = Inr (3 / 2 * pi)"
    unfolding quarter .
  from 9 0 have 9: "published ?later = [example_x0\<lparr>translation := (3 / 5, - 1 / 10, 3 / 10)\<rparr>]"
    unfolding quarter cos_3over2_pi sin_3over2_pi by simp
  from fixed_trajectory_circle
         [OF FixedTrajectoryBaseline_init_example refl example_x0_translation started one refl,
          of example_detect]
  have "published (snd (FixedTrajectoryBaseline_update example_detect (0 + 2) ?later)) =
          published ?later @ [example_x0\<lparr>translation := (7 / 10, 0, 3 / 10)\<rparr>]"
    by blast
  with 9 have 10: "published (snd (FixedTrajectoryBaseline_update example_detect 2 ?later)) =
       [example_x0\<lparr>translation := (3 / 5, - 1 / 10, 3 / 10)\<rparr>,
        example_x0\<lparr>translation := (7 / 10, 0, 3 / 10)\<rparr>]"
    by simp
  from 1 2 3 5 6 8 9 10 show ?thesis
    by blast
qed

text \<open>
  Claim C7, as the code has it. The test of line 149 is \<^verbatim>\<open>elapsed_time > self.duration\<close>.
  At an elapsed time equal to the scan duration an \<^verbatim>\<open>update()\<close> integrates the sample
  and publishes the motion command for the angle \<open>3\<pi>\<close>, the point \<open>origin - (r, 0, 0)\<close>
  where the scan started; at every elapsed time up to and including the duration the
  done flag and the stored grasp stay as they were. Only at an elapsed time greater than
  the duration does \<^verbatim>\<open>update()\<close> plan, store the grasp and set the done flag, and then
  it publishes nothing.
\<close>

theorem fixed_trajectory_boundary:
  assumes "tic self = Some t0"
    and "last_depth_img self = Some img" and "last_extrinsic self = Some extrinsic"
    and "origin self = Some org" and "target self = Some tgt"
    and "0 < duration self" and "m self = interp1d (0, duration self) (pi, 3 * pi)"
  shows "(now - t0 = duration self \<longrightarrow>
            FixedTrajectoryBaseline_update detect now self =
              (None,
               self\<lparr>tsdf := tsdf self @ [(img, intrinsic self, extrinsic)],
                    target := Some (tgt\<lparr>translation := vec_add org (- radius self, 0, 0)\<rparr>),
                    published := published self @
                                   [tgt\<lparr>translation := vec_add org (- radius self, 0, 0)\<rparr>]\<rparr>))
       \<and> (now - t0 \<le> duration self \<longrightarrow>
            done_flag (snd (FixedTrajectoryBaseline_update detect now self)) = done_flag self
            \<and> best_grasp (snd (FixedTrajectoryBaseline_update detect now self)) = best_grasp self)
       \<and> (now - t0 > duration self
            \<and> detect (tsdf self @ [(img, intrinsic self, extrinsic)]) = grasp # rest \<longrightarrow>
            FixedTrajectoryBaseline_update detect now self =
              (None,
               self\<lparr>tsdf := tsdf self @ [(img, intrinsic self, extrinsic)],
                    best_grasp := Some (Transform_mul
                                          (Transform_mul (H_B_T self) (pose (canonicalize grasp)))
                                          (Transform_inv (H_EE_G self))),
                    done_flag := Some True\<rparr>))"
proof -
  have "FixedTrajectoryBaseline_update detect now self =
              (None,
               self\<lparr>tsdf := tsdf self @ [(img, intrinsic self, extrinsic)],
                    target := Some (tgt\<lparr>translation := vec_add org (- radius self, 0, 0)\<rparr>),
                    published := published self @
                                   [tgt\<lparr>translation := vec_add org (- radius self, 0, 0)\<rparr>]\<rparr>)"
    if "now - t0 = duration self"
  proof -
    have "m self (now - t0) = Inr (3 * pi)"
      using assms(6) that by (simp add: assms(7) interp1d_angle)
    from FixedTrajectoryBaseline_update_motion [OF assms(1-5) _ this, of detect] that
    show ?thesis by (simp add: cos_3pi sin_3pi)
  qed
  then show ?thesis
    using assms(1-3)
    by (simp add: FixedTrajectoryBaseline_update_scanning FixedTrajectoryBaseline_update_plan)
qed

theorem fixed_trajectory_boundary_witness:
  "published (snd (FixedTrajectoryBaseline_update example_detect 4 example_started)) =
     [example_x0]
   \<and> done_flag (snd (FixedTrajectoryBaseline_update example_detect 4 example_started)) =
       Some False
   \<and> published (snd (FixedTrajectoryBaseline_update example_detect 5 example_started)) = []
   \<and> done_flag (snd (FixedTrajectoryBaseline_update example_detect 5 example_started)) =
       Some True
   \<and> best_grasp (snd (FixedTrajectoryBaseline_update example_detect 5 example_started)) =
       Some \<lparr>rotation = Rotation ((sin np_pi, cos np_pi, 0), (- cos np_pi, sin np_pi, 0), (0, 0, 1)),
             translation = (4 / 5, 21 / 10, 16 / 5)\<rparr>"
proof -
  note f = example_started_fields
  have d: "0 < duration example_started"
    and m: "m example_started = interp1d (0, duration example_started) (pi, 3 * pi)"
    by (simp_all add: f)
  have x0: "example_x0\<lparr>translation := (1 / 2, 0, 3 / 10)\<rparr> = example_x0"
    by (simp add: example_x0_def)
  have "4 - 0 = duration example_started"
    by (simp add: f)
  with fixed_trajectory_boundary [OF f(1-5) d m, of 4 example_detect]
  have 1: "FixedTrajectoryBaseline_update example_detect 4 example_started =
      (None,
       example_started
         \<lparr>tsdf := tsdf example_started @ [(example_image, intrinsic example_started, example_extrinsic)],
          target := Some (example_x0\<lparr>translation := vec_add (3 / 5, 0, 3 / 10) (- radius example_started, 0, 0)\<rparr>),
          published := published example_started @
             [example_x0\<lparr>translation := vec_add (3 / 5, 0, 3 / 10) (- radius example_started, 0, 0)\<rparr>]\<rparr>)"
    by blast
  have "4 - 0 \<le> duration example_started"
    by (simp add: f)
  with fixed_trajectory_boundary [OF f(1-5) d m, of 4 example_detect]
  have 2: "done_flag (snd (FixedTrajectoryBaseline_update example_detect 4 example_started)) =
             done_flag example_started"
    by blast
  have "5 - 0 > duration example_started
        \<and> example_detect (tsdf example_started @ [(example_image, intrinsic example_started, example_extrinsic)]) =
            example_back_grasp # [example_front_grasp]"
    by (simp add: f example_detect_Cons)
  with fixed_trajectory_boundary
         [OF f(1-5) d m, of 5 example_detect example_back_grasp "[example_front_grasp]"]
  have 3: "FixedTrajectoryBaseline_update example_detect 5 example_started =
      (None,
       example_started
         \<lparr>tsdf := tsdf example_started @ [(example_image, intrinsic example_started, example_extrinsic)],
          best_grasp := Some (Transform_mul
                                (Transform_mul (H_B_T example_started) (pose (canonicalize example_back_grasp)))
                                (Transform_inv (H_EE_G example_started))),
          done_flag := Some True\<rparr>)"
    by blast
  have 4: "Transform_mul (Transform_mul (H_B_T example_started) (pose (canonicalize example_back_grasp)))
             (Transform_inv (H_EE_G example_started)) =
           \<lparr>rotation = Rotation ((sin np_pi, cos np_pi, 0), (- cos np_pi, sin np_pi, 0), (0, 0, 1)),
            translation = (4 / 5, 21 / 10, 16 / 5)\<rparr>"
    by (simp add: canonicalize_example_back_grasp example_started_eq example_fixed_trajectory_def
          Policy.extend_def)
       (simp add: example_policy_def example_back_grasp_def Transform_mul_def Transform_inv_def
          Rotation_mul_def Rotation_inv_def Rotation_apply_def mat_transpose_def Let_def)
  show ?thesis
    unfolding 1 2 3 4 by (simp add: f x0)
qed

text \<open>
  The claim as stated fails at the boundary: with duration \<open>4\<close> and an elapsed time of
  exactly \<open>4\<close>, the update publishes a motion command, plans nothing and leaves the done
  flag false.
\<close>

theorem fixed_trajectory_boundary_counterexample:
  "tic example_started = Some 0 \<and> duration example_started = 4
   \<and> fst (FixedTrajectoryBaseline_update example_detect 4 example_started) = None
   \<and> published (snd (FixedTrajectoryBaseline_update example_detect 4 example_started)) =
       [example_x0]
   \<and> done_flag (snd (FixedTrajectoryBaseline_update example_detect 4 example_started)) =
       Some False
   \<and> best_grasp (snd (FixedTrajectoryBaseline_update example_detect 4 example_started)) = None"
proof -
  have "m example_started (4 - 0) = Inr (3 * pi)"
    by (simp add: example_started_fields interp1d_angle)
  moreover have "\<not> 4 - 0 > duration example_started"
    by (simp add: example_started_fields)
  moreover have "example_x0\<lparr>translation := (1 / 2, 0, 3 / 10)\<rparr> = example_x0"
    by (simp add: example_x0_def)
  ultimately show ?thesis
    using FixedTrajectoryBaseline_update_motion
            [OF example_started_fields(1-5), of 4 "3 * pi" example_detect]
    by (simp add: example_started_fields cos_3pi sin_3pi)
qed

end
